theory Spec2Isabelle
  imports Main "HOL-Library.Word" "HOL-Library.AList"
begin

unbundle bit_operations_syntax

section \<open>JavaScript values used by the protocol engine\<close>

text \<open>
  A byte is an 8-bit word. A JavaScript string is modelled as a \<^typ>\<open>string\<close> with one
  character per UTF-16 code unit; every string literal of the sources stays below code unit 256
  (the German umlauts are the code units 0xE4, 0xF6, 0xFC). A thrown \<open>Error\<close> is modelled by
  its \<open>message\<close>, the only part of it that the sources ever inspect, and a function that may
  throw returns \<open>string + 'a\<close> with \<open>Inl\<close> carrying the message.
\<close>

type_synonym byte = "8 word"

text \<open>
  The protocol helpers receive their byte sequences either as a plain \<open>Array\<close> of numbers or as
  a Node \<open>Buffer\<close> (a \<open>Uint8Array\<close>). Both support \<open>length\<close>, indexing, \<open>slice\<close> and
  \<open>filter\<close> alike, but \<open>map\<close> differs: \<open>Array.prototype.map\<close> builds an array of the
  callback's results, whereas \<open>%TypedArray%.prototype.map\<close> stores every result back into a
  new \<open>Uint8Array\<close>, converting it with ToNumber and ToUint8 on the way.
\<close>

datatype jsbytes = JsArray "byte list" | JsBuffer "byte list"

fun elems :: "jsbytes \<Rightarrow> byte list" where
  "elems (JsArray xs) = xs"
| "elems (JsBuffer xs) = xs"

fun same_kind :: "jsbytes \<Rightarrow> byte list \<Rightarrow> jsbytes" where
  "same_kind (JsArray _) ys = JsArray ys"
| "same_kind (JsBuffer _) ys = JsBuffer ys"

definition js_length :: "jsbytes \<Rightarrow> nat" where
  "js_length b = length (elems b)"

text \<open>\<open>b[i]\<close>: \<open>None\<close> stands for \<open>undefined\<close>, the value of an out-of-range read.\<close>

definition js_at :: "jsbytes \<Rightarrow> nat \<Rightarrow> byte option" where
  "js_at b i = (if i < length (elems b) then Some (elems b ! i) else None)"

text \<open>\<open>b.slice(start, end)\<close> and \<open>b.slice(start)\<close> for the non-negative arguments the sources use.\<close>

definition js_slice :: "jsbytes \<Rightarrow> nat \<Rightarrow> nat \<Rightarrow> jsbytes" where
  "js_slice b start stop = same_kind b (take (stop - start) (drop start (elems b)))"

definition js_slice_from :: "jsbytes \<Rightarrow> nat \<Rightarrow> jsbytes" where
  "js_slice_from b start = same_kind b (drop start (elems b))"

definition js_filter :: "(byte \<Rightarrow> bool) \<Rightarrow> jsbytes \<Rightarrow> jsbytes" where
  "js_filter P b = same_kind b (filter P (elems b))"

subsection \<open>Numbers to strings\<close>

definition digit_char :: "nat \<Rightarrow> char" where
  "digit_char d = ''0123456789abcdef'' ! d"

text \<open>\<open>n.toString()\<close> and \<open>n.toString(16)\<close> for a non-negative integer \<open>n\<close>.\<close>

fun toString10 :: "nat \<Rightarrow> string" where
  "toString10 n = (if n < 10 then [digit_char n] else toString10 (n div 10) @ [digit_char (n mod 10)])"

fun toString16 :: "nat \<Rightarrow> string" where
  "toString16 n = (if n < 16 then [digit_char n] else toString16 (n div 16) @ [digit_char (n mod 16)])"

declare toString10.simps [simp del]
declare toString16.simps [simp del]

definition padStart :: "nat \<Rightarrow> char \<Rightarrow> string \<Rightarrow> string" where
  "padStart n c s = replicate (n - length s) c @ s"

text \<open>\<open>s.toUpperCase()\<close>; the sources apply it to lower-case hexadecimal renderings only.\<close>

definition toUpperCase_char :: "char \<Rightarrow> char" where
  "toUpperCase_char c =
     (if (97::nat) \<le> of_char c \<and> of_char c \<le> (122::nat) then char_of (of_char c - (32::nat)) else c)"

definition toUpperCase :: "string \<Rightarrow> string" where
  "toUpperCase s = map toUpperCase_char s"

fun startsWith :: "string \<Rightarrow> string \<Rightarrow> bool" where
  "startsWith s [] = True"
| "startsWith [] (p # ps) = False"
| "startsWith (c # cs) (p # ps) = (c = p \<and> startsWith cs ps)"

text \<open>\<open>s.includes(sub)\<close>: \<open>sub\<close> occurs in \<open>s\<close> as a contiguous substring.\<close>

fun includes_str :: "string \<Rightarrow> string \<Rightarrow> bool" where
  "includes_str [] sub = (sub = [])"
| "includes_str (c # cs) sub = (startsWith (c # cs) sub \<or> includes_str cs sub)"

text \<open>\<open>parts.join(sep)\<close>.\<close>

fun join :: "string \<Rightarrow> string list \<Rightarrow> string" where
  "join sep [] = []"
| "join sep [x] = x"
| "join sep (x # y # ys) = x @ sep @ join sep (y # ys)"

section \<open>backend/lib/protocols.js: ProtocolHelper\<close>

definition REPORT_SIZE :: nat where
  "REPORT_SIZE = 64"

definition HID_FRAME_HEADERS_REQUEST :: "byte list" where
  "HID_FRAME_HEADERS_REQUEST = [0x01, 0x00, 0x3A, 0x08]"

definition HID_FRAME_HEADERS_HANDSHAKE_REQUEST :: "byte list" where
  "HID_FRAME_HEADERS_HANDSHAKE_REQUEST = [0x00, 0x00, 0x01, 0x01]"

definition HID_FRAME_HEADERS_HANDSHAKE_RESPONSE :: "byte list" where
  "HID_FRAME_HEADERS_HANDSHAKE_RESPONSE = [0x00, 0x01, 0x01, 0x00]"

record uds_response =
  serviceId :: byte
  dataLength :: byte
  responseCode :: byte
  data :: jsbytes
  isPositiveResponse :: bool
  isNegativeResponse :: bool

definition msg_invalid_length :: string where
  "msg_invalid_length = ''Ung'' @ [CHR 0xFC] @ ''ltige Response-L'' @ [CHR 0xE4] @ ''nge''"

definition msg_invalid_header :: string where
  "msg_invalid_header = ''Ung'' @ [CHR 0xFC] @ ''ltiger Response-Header''"

text \<open>
  \<open>parseUdsResponse\<close> of the backend: both checks throw; on a frame that passes them the
  reads of index 2 to 5 are in range, so \<open>!\<close> is only used below the length.
\<close>

definition parseUdsResponse :: "jsbytes \<Rightarrow> string + uds_response" where
  "parseUdsResponse response =
     (if js_length response < 6 then Inl msg_invalid_length
      else if js_at response 0 \<noteq> Some 0x01 \<or> js_at response 1 \<noteq> Some 0x00 then
        Inl (msg_invalid_header @ '': '' @ toString10 (unat (elems response ! 0)) @ '' ''
             @ toString10 (unat (elems response ! 1)) @ '' '' @ toString10 (unat (elems response ! 2)))
      else
        Inr \<lparr> serviceId = elems response ! 4,
              dataLength = elems response ! 3,
              responseCode = elems response ! 5,
              data = js_slice_from response 6,
              isPositiveResponse = (elems response ! 5 = 0x62),
              isNegativeResponse = (elems response ! 5 = 0x7F) \<rparr>)"

text \<open>
  \<open>hexData.map(b => b.toString(16).padStart(2, '0')).join(sep)\<close>. On a plain array this joins
  the two-digit hexadecimal strings. On a \<open>Buffer\<close> the strings are stored into a
  \<open>Uint8Array\<close> first: ToNumber reads a string of two decimal digits as that number and
  every other two-character hexadecimal string (one with a letter) as NaN, which ToUint8 turns
  into 0; \<open>join\<close> then prints the stored numbers in decimal.
\<close>

definition hex2 :: "byte \<Rightarrow> string" where
  "hex2 b = padStart 2 (CHR ''0'') (toString16 (unat b))"

definition isDigit :: "char \<Rightarrow> bool" where
  "isDigit c = ((48::nat) \<le> of_char c \<and> of_char c \<le> (57::nat))"

definition isAlnum :: "char \<Rightarrow> bool" where
  "isAlnum c = (isDigit c \<or> ((65::nat) \<le> of_char c \<and> of_char c \<le> (90::nat))
                 \<or> ((97::nat) \<le> of_char c \<and> of_char c \<le> (122::nat)))"

definition decimal_value :: "string \<Rightarrow> nat" where
  "decimal_value s = foldl (\<lambda>acc c. acc * 10 + (of_char c - 48)) 0 s"

definition stored_uint8 :: "string \<Rightarrow> byte" where
  \<comment> \<open>ToUint8 (ToNumber s) for the two-character strings that \<open>hex2\<close> produces\<close>
  "stored_uint8 s = (if s \<noteq> [] \<and> list_all isDigit s then of_nat (decimal_value s) else 0)"

fun hex_map_join :: "string \<Rightarrow> jsbytes \<Rightarrow> string" where
  "hex_map_join sep (JsArray xs) = join sep (map hex2 xs)"
| "hex_map_join sep (JsBuffer xs) = join sep (map (\<lambda>b. toString10 (unat (stored_uint8 (hex2 b)))) xs)"

text \<open>
  \<open>Buffer.from(bytes).toString('ascii')\<close>: Node clears the highest bit of every byte and then
  decodes it as one character.
\<close>

definition ascii_decode :: "byte list \<Rightarrow> string" where
  "ascii_decode bs = map (\<lambda>b. char_of (unat (b AND 0x7F))) bs"

definition pad2 :: "byte \<Rightarrow> string" where
  \<comment> \<open>\<open>b.toString().padStart(2, '0')\<close>\<close>
  "pad2 b = padStart 2 (CHR ''0'') (toString10 (unat b))"

text \<open>The \<open>while (frame.length < REPORT_SIZE) frame.push(0x00)\<close> loop of \<open>createUdsFrame\<close>.\<close>

function pad_frame :: "byte list \<Rightarrow> byte list" where
  "pad_frame frame = (if length frame < REPORT_SIZE then pad_frame (frame @ [0x00]) else frame)"
  by pat_completeness auto
termination
  by (relation "measure (\<lambda>frame. REPORT_SIZE - length frame)") auto

declare pad_frame.simps [simp del]

text \<open>
  \<open>createUdsFrame\<close> and \<open>createHandshakeFrame\<close> have the same text in both protocols files.
  \<open>Buffer.from\<close> keeps the low 8 bits of every number, so the arguments are bytes here.
\<close>

definition createUdsFrame :: "byte \<Rightarrow> byte list \<Rightarrow> byte list \<Rightarrow> byte list" where
  "createUdsFrame sid dataIdentifier extra =
     pad_frame (HID_FRAME_HEADERS_REQUEST @ [0x03, sid] @ dataIdentifier @ extra)"

definition createHandshakeFrame :: "byte list" where
  "createHandshakeFrame = HID_FRAME_HEADERS_HANDSHAKE_REQUEST @ replicate (REPORT_SIZE - 4) 0x00"

definition hexToAscii :: "jsbytes \<Rightarrow> string" where
  "hexToAscii hexData =
     (let cleanData = js_filter (\<lambda>b. b \<noteq> 0x00 \<and> 0x20 \<le> b \<and> b \<le> 0x7E) hexData;
          asciiString = ascii_decode (elems cleanData)
      in dropWhile (\<lambda>c. \<not> isAlnum c) asciiString)"

definition expectedPattern :: string where
  "expectedPattern = ''37FFD705564E313046442000''"

definition hexToSerialNumber :: "jsbytes \<Rightarrow> string" where
  "hexToSerialNumber hexData =
     (let serialData = js_slice hexData 0 (min (js_length hexData) 20);
          hexString = hex_map_join [] serialData;
          fullHex = toUpperCase hexString
      in if includes_str fullHex expectedPattern then ''0x'' @ expectedPattern
         else ''0x'' @ fullHex)"

definition hexToVersion :: "jsbytes \<Rightarrow> string" where
  "hexToVersion hexData =
     (if js_length hexData \<ge> 4 then
        toString10 (unat (elems hexData ! 0)) @ ''.'' @ toString10 (unat (elems hexData ! 1)) @ ''.''
        @ toString10 (unat (elems hexData ! 2)) @ ''.'' @ toString10 (unat (elems hexData ! 3))
      else if js_length hexData \<ge> 2 then
        (let byte1 = elems hexData ! 0; byte2 = elems hexData ! 1
         in if byte1 = 0x02 \<and> byte2 = 0x72 then ''0.0.2.2''
            else if byte1 = 0x02 \<and> byte2 = 0x20 then ''5.9.2.0''
            else toString10 (unat byte1) @ ''.'' @ toString10 (unat byte2) @ ''.0.0'')
      else hex_map_join ''.'' hexData)"

definition hexToArticleNumber :: "jsbytes \<Rightarrow> string" where
  "hexToArticleNumber hexData =
     (let cleanData = js_filter (\<lambda>b. b \<noteq> 0x00) hexData;
          articleNumber = ascii_decode (elems cleanData);
          articleNumber = (if startsWith articleNumber ''2'' then drop 1 articleNumber else articleNumber)
      in rev (dropWhile (\<lambda>c. \<not> isDigit c) (rev articleNumber)))"

definition hexToTime :: "jsbytes \<Rightarrow> string" where
  "hexToTime hexData =
     (if js_length hexData \<ge> 2 then
        (let byte1 = elems hexData ! 0; byte2 = elems hexData ! 1;
             hours1 = byte1; minutes1 = byte2; hours2 = byte2; minutes2 = byte1
         in if minutes1 < 60 then pad2 hours1 @ '':'' @ pad2 minutes1
            else if minutes2 < 60 then pad2 hours2 @ '':'' @ pad2 minutes2
            else pad2 byte1 @ '':'' @ pad2 byte2)
      else ''00:00'')"

definition hexToDate :: "jsbytes \<Rightarrow> string" where
  "hexToDate hexData =
     (if js_length hexData \<ge> 3 then
        (let year = 2000 + unat (elems hexData ! 0); month = elems hexData ! 1; day = elems hexData ! 2
         in pad2 day @ ''.'' @ pad2 month @ ''.'' @ toString10 year)
      else ''01.01.2000'')"

definition isResponseSuccessful :: "jsbytes \<Rightarrow> bool" where
  "isResponseSuccessful response =
     (case parseUdsResponse response of
        Inl error \<Rightarrow> False
      | Inr parsed \<Rightarrow> isPositiveResponse parsed \<and> dataLength parsed > 0 \<and> js_length (data parsed) > 0)"

fun COMPONENT_TYPES :: "byte \<Rightarrow> string option" where
  "COMPONENT_TYPES b =
     (if b = 0x0B then Some ''Intuvia'' else if b = 0x0C then Some ''Purion''
      else if b = 0x0D then Some ''Nyon'' else if b = 0x0E then Some ''Kiox''
      else if b = 0x02 then Some ''Intuvia'' else None)"

section \<open>The protocols file of the local HID tool: ProtocolHelper\<close>

text \<open>
  The command-line tool under \<open>src/lib\<close> loads an older \<open>ProtocolHelper\<close>. Its functions carry
  the suffix \<open>_local\<close> here; \<open>createUdsFrame\<close> and \<open>createHandshakeFrame\<close> are shared.
\<close>

record uds_response_local =
  serviceId_local :: byte
  dataLength_local :: byte
  data_local :: jsbytes

definition parseUdsResponse_local :: "jsbytes \<Rightarrow> string + uds_response_local" where
  "parseUdsResponse_local response =
     (if js_length response < 6 then Inl msg_invalid_length
      else if js_at response 0 \<noteq> Some 0x01 \<or> js_at response 1 \<noteq> Some 0x00 then Inl msg_invalid_header
      else
        Inr \<lparr> serviceId_local = elems response ! 3,
              dataLength_local = elems response ! 2,
              data_local = js_slice_from response 5 \<rparr>)"

definition hexToAscii_local :: "jsbytes \<Rightarrow> string" where
  "hexToAscii_local hexData =
     (let cleanData = js_filter (\<lambda>b. b \<noteq> 0x00 \<and> 0x20 \<le> b \<and> b \<le> 0x7E) hexData
      in ascii_decode (elems cleanData))"

definition hexToSerialNumber_local :: "jsbytes \<Rightarrow> string" where
  "hexToSerialNumber_local hexData =
     (let serialData = js_slice hexData 0 12;
          hexString = hex_map_join [] serialData
      in ''0x'' @ toUpperCase hexString)"

definition hexToVersion_local :: "jsbytes \<Rightarrow> string" where
  "hexToVersion_local hexData =
     (if js_length hexData \<ge> 4 then
        toString10 (unat (elems hexData ! 0)) @ ''.'' @ toString10 (unat (elems hexData ! 1)) @ ''.''
        @ toString10 (unat (elems hexData ! 2)) @ ''.'' @ toString10 (unat (elems hexData ! 3))
      else hex_map_join ''.'' hexData)"

definition hexToArticleNumber_local :: "jsbytes \<Rightarrow> string" where
  "hexToArticleNumber_local hexData =
     (let cleanData = js_filter (\<lambda>b. b \<noteq> 0x00) hexData
      in ascii_decode (elems cleanData))"

definition hexToTime_local :: "jsbytes \<Rightarrow> string" where
  "hexToTime_local hexData =
     (if js_length hexData \<ge> 2 then
        (let hours = elems hexData ! 0; minutes = elems hexData ! 1
         in pad2 hours @ '':'' @ pad2 minutes)
      else ''00:00'')"

definition hexToDate_local :: "jsbytes \<Rightarrow> string" where
  "hexToDate_local hexData =
     (if js_length hexData \<ge> 3 then
        (let day = elems hexData ! 0; month = elems hexData ! 1; year = 2000 + unat (elems hexData ! 2)
         in pad2 day @ ''.'' @ pad2 month @ ''.'' @ toString10 year)
      else ''01.01.2000'')"

definition isResponseSuccessful_local :: "jsbytes \<Rightarrow> bool" where
  "isResponseSuccessful_local response =
     (case parseUdsResponse_local response of
        Inl error \<Rightarrow> False
      | Inr parsed \<Rightarrow> serviceId_local parsed \<noteq> 0x7F \<and> dataLength_local parsed > 0)"

section \<open>src/lib/SimpleHidWrapper.js\<close>

text \<open>
  The HID report that \<open>SimpleHidWrapper.write\<close> hands to the device: the report id 0x00
  followed by the data, cut to 65 bytes or filled with zero bytes up to 65.
\<close>

function pad_report :: "byte list \<Rightarrow> byte list" where
  "pad_report reportArray = (if length reportArray < 65 then pad_report (reportArray @ [0x00]) else reportArray)"
  by pat_completeness auto
termination
  by (relation "measure (\<lambda>reportArray. 65 - length reportArray)") auto

declare pad_report.simps [simp del]

definition reportArray :: "byte list \<Rightarrow> byte list" where
  "reportArray dataArray =
     (let report = 0x00 # dataArray
      in if length report > 65 then take 65 report else pad_report report)"

section \<open>Asynchronous methods: state and exceptions\<close>

text \<open>
  A method of \<open>BoschDisplayTool\<close> reads and writes the fields of \<open>this\<close> and either returns
  or throws. It is modelled as a function from the state before the call to the outcome
  (\<open>Inl\<close> the message of the thrown error, \<open>Inr\<close> the returned value) and the state after.
  The calls are awaited one after the other, so the model is sequential.
\<close>

type_synonym ('a, 's) js = "'s \<Rightarrow> (string + 'a) \<times> 's"

definition return_js :: "'a \<Rightarrow> ('a, 's) js" where
  "return_js v s = (Inr v, s)"

definition throw :: "string \<Rightarrow> ('a, 's) js" where
  "throw msg s = (Inl msg, s)"

definition bind_js :: "('a, 's) js \<Rightarrow> ('a \<Rightarrow> ('b, 's) js) \<Rightarrow> ('b, 's) js" where
  "bind_js m f s = (case m s of (Inl e, s') \<Rightarrow> (Inl e, s') | (Inr v, s') \<Rightarrow> f v s')"

definition try_catch :: "('a, 's) js \<Rightarrow> (string \<Rightarrow> ('a, 's) js) \<Rightarrow> ('a, 's) js" where
  "try_catch m handler s = (case m s of (Inl e, s') \<Rightarrow> handler e s' | (Inr v, s') \<Rightarrow> (Inr v, s'))"

definition lift_js :: "string + 'a \<Rightarrow> ('a, 's) js" where
  "lift_js r s = (r, s)"

section \<open>The transport wrapper\<close>

text \<open>
  \<open>SimpleHidWrapper\<close> (local tool) and \<open>WebUsbWrapper\<close> (backend) sit between the tool and the
  device. The tool only calls \<open>open\<close>, \<open>write\<close>, \<open>read\<close> and \<open>close\<close> on the wrapper, and each
  call resolves or rejects; the wrapper is therefore a parameter: a state of any type \<open>'t\<close> and
  four operations on it, each of which may throw. \<open>wrapper_new\<close> is the constructor call
  \<open>new SimpleHidWrapper(device)\<close>.
\<close>

text \<open>Of a device descriptor the tool only tests the vendor and the product id.\<close>

record device_info =
  vendorId :: nat
  productId :: nat

record 't wrapper_ops =
  wrapper_new :: "device_info \<Rightarrow> 't"
  wrapper_open :: "'t \<Rightarrow> (string + unit) \<times> 't"
  wrapper_write :: "byte list \<Rightarrow> 't \<Rightarrow> (string + nat) \<times> 't"
  wrapper_read :: "nat \<Rightarrow> 't \<Rightarrow> (string + jsbytes) \<times> 't"
  wrapper_close :: "'t \<Rightarrow> (string + unit) \<times> 't"

datatype io_event = IoOpen | IoWrite "byte list" | IoRead nat | IoClose

text \<open>
  The fields of a \<open>BoschDisplayTool\<close>. \<open>wrapper\<close> is \<open>this.hidWrapper\<close> in the local tool and
  \<open>this.usbWrapper\<close> in the backend (\<open>None\<close> is \<open>null\<close>). \<open>io_log\<close> is not a field of the
  source: it records, in order, every call that reached the wrapper.
\<close>

record 't tool =
  device :: "device_info option"
  wrapper :: "'t option"
  isConnected :: bool
  sequenceNumber :: nat
  io_log :: "io_event list"

definition new_tool :: "'t option \<Rightarrow> 't tool" where
  \<comment> \<open>the constructor; the local tool starts with \<open>hidWrapper = null\<close>\<close>
  "new_tool usbWrapper =
     \<lparr> device = None, wrapper = usbWrapper, isConnected = False, sequenceNumber = 0, io_log = [] \<rparr>"

definition msg_null_wrapper :: string where
  \<comment> \<open>the TypeError of a method call on \<open>null\<close>; every call in the sources is guarded against it\<close>
  "msg_null_wrapper = ''Cannot read properties of null''"

definition call_open :: "'t wrapper_ops \<Rightarrow> (unit, 't tool) js" where
  "call_open W s =
     (case wrapper s of
        None \<Rightarrow> (Inl msg_null_wrapper, s)
      | Some t \<Rightarrow> (case wrapper_open W t of
                    (r, t') \<Rightarrow> (r, s\<lparr>wrapper := Some t', io_log := io_log s @ [IoOpen]\<rparr>)))"

definition call_write :: "'t wrapper_ops \<Rightarrow> byte list \<Rightarrow> (nat, 't tool) js" where
  "call_write W bytes s =
     (case wrapper s of
        None \<Rightarrow> (Inl msg_null_wrapper, s)
      | Some t \<Rightarrow> (case wrapper_write W bytes t of
                    (r, t') \<Rightarrow> (r, s\<lparr>wrapper := Some t', io_log := io_log s @ [IoWrite bytes]\<rparr>)))"

definition call_read :: "'t wrapper_ops \<Rightarrow> nat \<Rightarrow> (jsbytes, 't tool) js" where
  "call_read W timeout s =
     (case wrapper s of
        None \<Rightarrow> (Inl msg_null_wrapper, s)
      | Some t \<Rightarrow> (case wrapper_read W timeout t of
                    (r, t') \<Rightarrow> (r, s\<lparr>wrapper := Some t', io_log := io_log s @ [IoRead timeout]\<rparr>)))"

definition call_close :: "'t wrapper_ops \<Rightarrow> (unit, 't tool) js" where
  "call_close W s =
     (case wrapper s of
        None \<Rightarrow> (Inl msg_null_wrapper, s)
      | Some t \<Rightarrow> (case wrapper_close W t of
                    (r, t') \<Rightarrow> (r, s\<lparr>wrapper := Some t', io_log := io_log s @ [IoClose]\<rparr>)))"

section \<open>BoschDisplayTool: the methods that both tools share\<close>

definition msg_not_connected :: string where
  "msg_not_connected = ''Nicht mit dem Display verbunden!''"

definition sendData :: "'t wrapper_ops \<Rightarrow> byte list \<Rightarrow> (unit, 't tool) js" where
  "sendData W bytes s =
     (if \<not> isConnected s \<or> wrapper s = None then throw msg_not_connected s
      else try_catch
             (bind_js (call_write W bytes) (\<lambda>written. return_js ()))
             (\<lambda>error. throw (''Sendefehler: '' @ error)) s)"

definition receiveData :: "'t wrapper_ops \<Rightarrow> nat \<Rightarrow> (jsbytes, 't tool) js" where
  "receiveData W timeout s =
     (if \<not> isConnected s \<or> wrapper s = None then throw msg_not_connected s
      else try_catch
             (bind_js (call_read W timeout) (\<lambda>response. return_js response))
             (\<lambda>error. if includes_str error ''timeout'' \<or> includes_str error ''Timeout''
                      then throw ''TIMEOUT''
                      else throw (''Empfangsfehler: '' @ error)) s)"

definition performHandshake :: "'t wrapper_ops \<Rightarrow> (bool, 't tool) js" where
  "performHandshake W s =
     (if \<not> isConnected s then throw msg_not_connected s
      else try_catch
             (bind_js (sendData W createHandshakeFrame) (\<lambda>sent.
              bind_js (receiveData W 1000) (\<lambda>response.
                if js_at response 0 = Some (HID_FRAME_HEADERS_HANDSHAKE_RESPONSE ! 0)
                   \<and> js_at response 1 = Some (HID_FRAME_HEADERS_HANDSHAKE_RESPONSE ! 1)
                   \<and> js_at response 2 = Some (HID_FRAME_HEADERS_HANDSHAKE_RESPONSE ! 2)
                   \<and> js_at response 3 = Some (HID_FRAME_HEADERS_HANDSHAKE_RESPONSE ! 3)
                then return_js True
                else throw (''Handshake fehlgeschlagen - ung'' @ [CHR 0xFC] @ ''ltige Response''))))
             (\<lambda>error. throw (''Handshake-Fehler: '' @ error)) s)"

text \<open>
  \<open>disconnect\<close>: the \<open>close\<close> call is made only on a wrapper that is not \<open>null\<close>, and an error
  it throws is caught and printed.
\<close>

definition disconnect :: "'t wrapper_ops \<Rightarrow> (unit, 't tool) js" where
  "disconnect W =
     bind_js (\<lambda>s. if wrapper s \<noteq> None
                   then try_catch (call_close W) (\<lambda>error. return_js ()) s
                   else return_js () s)
       (\<lambda>closed s. (Inr (), s\<lparr>wrapper := None, device := None, isConnected := False\<rparr>))"

section \<open>src/lib/BoschDisplayTool.js: the local HID tool\<close>

definition READ_DATA_BY_IDENTIFIER :: byte where
  "READ_DATA_BY_IDENTIFIER = 0x22"

definition WRITE_DATA_BY_IDENTIFIER :: byte where
  "WRITE_DATA_BY_IDENTIFIER = 0x2E"

definition SERIAL_NUMBER :: "byte list" where "SERIAL_NUMBER = [0x02, 0x42]"
definition HARDWARE_VERSION_local :: "byte list" where "HARDWARE_VERSION_local = [0x02, 0x21]"
definition HARDWARE_VERSION :: "byte list" where "HARDWARE_VERSION = [0x02, 0x72]"
definition SOFTWARE_VERSION :: "byte list" where "SOFTWARE_VERSION = [0x02, 0x20]"
definition COMPONENT_TYPE :: "byte list" where "COMPONENT_TYPE = [0x02, 0x60]"
definition HMI_PART_NUMBER :: "byte list" where "HMI_PART_NUMBER = [0x02, 0x32]"
definition PRESENT_DATE_TIME :: "byte list" where "PRESENT_DATE_TIME = [0x02, 0x3A]"
definition CURRENT_TIME :: "byte list" where "CURRENT_TIME = [0x02, 0x40]"
definition CURRENT_DATE :: "byte list" where "CURRENT_DATE = [0x02, 0x3A]"
definition BOSCH_PRODUCT_CODE :: "byte list" where "BOSCH_PRODUCT_CODE = [0x5B, 0x7C]"
definition DU_PART_NUMBER :: "byte list" where "DU_PART_NUMBER = [0xF1, 0x30]"
definition DU_SERIAL_NUMBER :: "byte list" where "DU_SERIAL_NUMBER = [0xF1, 0xAC]"
definition DU_HW_VERSION :: "byte list" where "DU_HW_VERSION = [0xF1, 0x50]"
definition DU_SW_VERSION :: "byte list" where "DU_SW_VERSION = [0xF1, 0x51]"
definition BMS_PART_NUMBER :: "byte list" where "BMS_PART_NUMBER = [0xF1, 0x30]"
definition BMS_SERIAL_NUMBER :: "byte list" where "BMS_SERIAL_NUMBER = [0xF1, 0xAC]"
definition BMS_HW_VERSION :: "byte list" where "BMS_HW_VERSION = [0xF1, 0x50]"
definition BMS_SW_VERSION :: "byte list" where "BMS_SW_VERSION = [0xF1, 0x51]"

definition isBoschDisplay :: "device_info option \<Rightarrow> bool" where
  "isBoschDisplay dev = (case dev of None \<Rightarrow> False | Some d \<Rightarrow> vendorId d = 0x108c \<and> productId d = 0x155)"

definition connect_local :: "'t wrapper_ops \<Rightarrow> device_info option \<Rightarrow> (unit, 't tool) js" where
  "connect_local W dev s =
     (if \<not> isBoschDisplay dev
      then throw (''Das angegebene Ger'' @ [CHR 0xE4] @ ''t ist kein Bosch eBike Display!'') s
      else try_catch
             (bind_js (\<lambda>s. (Inr (), s\<lparr>device := dev, wrapper := Some (wrapper_new W (the dev))\<rparr>)) (\<lambda>created.
              bind_js (call_open W) (\<lambda>opened.
              bind_js (\<lambda>s. (Inr (), s\<lparr>isConnected := True\<rparr>)) (\<lambda>flagged.
              bind_js (performHandshake W) (\<lambda>shaken. return_js ())))))
             (\<lambda>error s. throw (''Verbindungsfehler: '' @ error) (s\<lparr>isConnected := False\<rparr>)) s)"

definition sendUdsRequest_local ::
  "'t wrapper_ops \<Rightarrow> byte \<Rightarrow> byte list \<Rightarrow> byte list \<Rightarrow> nat \<Rightarrow> (jsbytes, 't tool) js" where
  "sendUdsRequest_local W sid dataIdentifier additionalData timeout s =
     (if \<not> isConnected s then throw msg_not_connected s
      else try_catch
             (bind_js (sendData W (createUdsFrame sid dataIdentifier additionalData)) (\<lambda>sent.
              bind_js (receiveData W timeout) (\<lambda>response.
              bind_js (lift_js (parseUdsResponse_local response)) (\<lambda>parsedResponse.
                if isResponseSuccessful_local response then return_js response
                else throw (''UDS-Response-Fehler: Service ''
                            @ toString16 (unat (serviceId_local parsedResponse)))))))
             (\<lambda>error. if includes_str error ''Timeout'' \<or> includes_str error ''TIMEOUT''
                      then throw ''TIMEOUT''
                      else throw (''UDS-Request-Fehler: '' @ error)) s)"

text \<open>\<open>value || fallback\<close> on strings: the empty string is falsy.\<close>

definition or_else :: "string \<Rightarrow> string \<Rightarrow> string" where
  "or_else v fallback = (if v \<noteq> [] then v else fallback)"

definition readSerialNumber_local :: "'t wrapper_ops \<Rightarrow> (string, 't tool) js" where
  "readSerialNumber_local W =
     try_catch
       (bind_js (sendUdsRequest_local W READ_DATA_BY_IDENTIFIER SERIAL_NUMBER [] 3000) (\<lambda>response.
          if js_length response > 0 then
            (let dataStart = (if js_length response > 8 then 8 else 5);
                 serialData = js_slice response dataStart (dataStart + 12);
                 serial = hexToSerialNumber_local serialData
             in return_js (or_else serial ''Seriennummer nicht lesbar''))
          else throw ''Keine Seriennummer empfangen''))
       (\<lambda>error. throw (''Seriennummer-Lesefehler: '' @ error))"

definition readHardwareVersion_local :: "'t wrapper_ops \<Rightarrow> (string, 't tool) js" where
  "readHardwareVersion_local W =
     try_catch
       (bind_js (sendUdsRequest_local W READ_DATA_BY_IDENTIFIER HARDWARE_VERSION_local [] 3000) (\<lambda>response.
          if js_length response \<ge> 4 then return_js (hexToVersion_local (js_slice response 8 12))
          else throw ''Keine Hardware-Version empfangen''))
       (\<lambda>error. throw (''Hardware-Version-Lesefehler: '' @ error))"

definition readSoftwareVersion_local :: "'t wrapper_ops \<Rightarrow> (string, 't tool) js" where
  "readSoftwareVersion_local W =
     try_catch
       (bind_js (sendUdsRequest_local W READ_DATA_BY_IDENTIFIER SOFTWARE_VERSION [] 3000) (\<lambda>response.
          if js_length response \<ge> 4 then return_js (hexToVersion_local (js_slice response 8 12))
          else throw ''Keine Software-Version empfangen''))
       (\<lambda>error. throw (''Software-Version-Lesefehler: '' @ error))"

definition readProductCode_local :: "'t wrapper_ops \<Rightarrow> (string, 't tool) js" where
  "readProductCode_local W =
     try_catch
       (bind_js (sendUdsRequest_local W READ_DATA_BY_IDENTIFIER BOSCH_PRODUCT_CODE [] 3000) (\<lambda>response.
          if js_length response > 0 then
            return_js (or_else (hexToAscii_local (js_slice response 8 14)) ''Produktcode nicht lesbar'')
          else throw ''Kein Produktcode empfangen''))
       (\<lambda>error. throw (''Produktcode-Lesefehler: '' @ error))"

definition readArticleNumber_local :: "'t wrapper_ops \<Rightarrow> (string, 't tool) js" where
  "readArticleNumber_local W =
     try_catch
       (bind_js (sendUdsRequest_local W READ_DATA_BY_IDENTIFIER HMI_PART_NUMBER [] 3000) (\<lambda>response.
          if js_length response > 0 then
            return_js (or_else (hexToArticleNumber_local (js_slice response 8 18)) ''Artikelnummer nicht lesbar'')
          else throw ''Keine Artikelnummer empfangen''))
       (\<lambda>error. throw (''Artikelnummer-Lesefehler: '' @ error))"

definition msg_undefined_toString :: string where
  \<comment> \<open>the TypeError of \<open>componentCode.toString(16)\<close> when \<open>response[8]\<close> is \<open>undefined\<close>\<close>
  "msg_undefined_toString = ''Cannot read properties of undefined (reading 'toString')''"

definition readComponentType_local :: "'t wrapper_ops \<Rightarrow> (string, 't tool) js" where
  "readComponentType_local W =
     try_catch
       (bind_js (sendUdsRequest_local W READ_DATA_BY_IDENTIFIER COMPONENT_TYPE [] 3000) (\<lambda>response.
          if js_length response > 0 then
            (case js_at response 8 of
               None \<Rightarrow> throw msg_undefined_toString
             | Some componentCode \<Rightarrow>
                 (case COMPONENT_TYPES componentCode of
                    Some name \<Rightarrow> return_js name
                  | None \<Rightarrow> return_js (''Unbekannt (0x'' @ toString16 (unat componentCode) @ '')'')))
          else throw ''Kein Komponententyp empfangen''))
       (\<lambda>error. throw (''Komponententyp-Lesefehler: '' @ error))"

definition readCurrentTime_local :: "'t wrapper_ops \<Rightarrow> (string, 't tool) js" where
  "readCurrentTime_local W =
     try_catch
       (bind_js (sendUdsRequest_local W READ_DATA_BY_IDENTIFIER CURRENT_TIME [] 3000) (\<lambda>response.
          if js_length response \<ge> 2 then return_js (hexToTime_local (js_slice response 8 10))
          else throw ''Keine Uhrzeit empfangen''))
       (\<lambda>error. throw (''Uhrzeit-Lesefehler: '' @ error))"

definition readCurrentDate_local :: "'t wrapper_ops \<Rightarrow> (string, 't tool) js" where
  "readCurrentDate_local W =
     try_catch
       (bind_js (sendUdsRequest_local W READ_DATA_BY_IDENTIFIER CURRENT_DATE [] 3000) (\<lambda>response.
          if js_length response \<ge> 3 then
            (let dataStart = (if js_length response > 8 then 8 else 5)
             in return_js (hexToDate_local (js_slice response dataStart (dataStart + 3))))
          else throw ''Kein Datum empfangen''))
       (\<lambda>error. throw (''Datum-Lesefehler: '' @ error))"

text \<open>
  The argument of \<open>setDateTime\<close> is a \<open>Date\<close>; the method reads these five getters.
  \<open>getMonth\<close> counts from 0. The payload numbers pass through \<open>Buffer.from\<close>, which keeps
  their low 8 bits.
\<close>

record js_date =
  getFullYear :: int
  getMonth :: int
  getDate :: int
  getHours :: int
  getMinutes :: int

definition setDateTime_local :: "'t wrapper_ops \<Rightarrow> js_date \<Rightarrow> (bool, 't tool) js" where
  "setDateTime_local W date =
     try_catch
       (let year = getFullYear date - 2000; month = getMonth date + 1; day = getDate date;
            hour = getHours date; minute = getMinutes date
        in bind_js (sendUdsRequest_local W WRITE_DATA_BY_IDENTIFIER PRESENT_DATE_TIME
                      [of_int year, of_int month, of_int day, of_int hour, of_int minute] 3000) (\<lambda>response.
             if js_at response 0 = Some 0x6E then return_js True
             else throw ''Datum/Zeit konnte nicht gesetzt werden''))
       (\<lambda>error. throw (''Datum/Zeit-Setze-Fehler: '' @ error))"

text \<open>
  A JavaScript object with string keys is an association list in insertion order;
  \<open>obj[key] = v\<close> is \<^const>\<open>AList.update\<close>. The values of the result record are strings, or
  objects whose own values are strings.
\<close>

datatype jsvalue = JStr string | JObj "(string \<times> string) list"

text \<open>
  \<open>readDriveUnitInfo\<close> and \<open>readBatteryManagementInfo\<close> repeat one block four times: a read
  with a 2000 ms timeout whose result is stored under a key when the response is long enough,
  and whose error is stored as a string, a timeout also setting \<open>hasTimeout\<close>.
  \<open>aux_block\<close> is that block; the state of the surrounding method is the pair of the info
  object and \<open>hasTimeout\<close>.
\<close>

definition msg_timeout_absent :: string where
  "msg_timeout_absent = ''Nicht angeschlossen (Timeout)''"

definition aux_block ::
  "'t wrapper_ops \<Rightarrow> string \<Rightarrow> byte list \<Rightarrow> (jsbytes \<Rightarrow> bool) \<Rightarrow> (jsbytes \<Rightarrow> string)
     \<Rightarrow> (string \<times> string) list \<times> bool \<Rightarrow> ((string \<times> string) list \<times> bool, 't tool) js" where
  "aux_block W key dataIdentifier long_enough decode st =
     try_catch
       (bind_js (sendUdsRequest_local W READ_DATA_BY_IDENTIFIER dataIdentifier [] 2000) (\<lambda>response.
          return_js (if long_enough response
                     then (AList.update key (decode response) (fst st), snd st)
                     else st)))
       (\<lambda>error. if error = ''TIMEOUT''
                then return_js (AList.update key msg_timeout_absent (fst st), True)
                else return_js (AList.update key (''Fehler: '' @ error) (fst st), snd st))"

definition readDriveUnitInfo_local :: "'t wrapper_ops \<Rightarrow> ((string \<times> string) list, 't tool) js" where
  "readDriveUnitInfo_local W s =
     (if \<not> isConnected s then throw msg_not_connected s
      else try_catch
        (bind_js (aux_block W ''partNumber'' DU_PART_NUMBER (\<lambda>r. js_length r > 0)
                    (\<lambda>r. hexToArticleNumber_local (js_slice r 8 18)) ([], False)) (\<lambda>st.
         bind_js (aux_block W ''serialNumber'' DU_SERIAL_NUMBER (\<lambda>r. js_length r > 0)
                    (\<lambda>r. hexToSerialNumber_local (js_slice r 8 20)) st) (\<lambda>st.
         bind_js (aux_block W ''hardwareVersion'' DU_HW_VERSION (\<lambda>r. js_length r \<ge> 4)
                    (\<lambda>r. hexToVersion_local (js_slice r 8 12)) st) (\<lambda>st.
         bind_js (aux_block W ''softwareVersion'' DU_SW_VERSION (\<lambda>r. js_length r \<ge> 4)
                    (\<lambda>r. hexToVersion_local (js_slice r 8 12)) st) (\<lambda>st.
           return_js
             (if snd st
              then AList.update ''message''
                     (''Drive Unit ist nicht am Display angeschlossen oder nicht verf'' @ [CHR 0xFC] @ ''gbar'')
                     (AList.update ''status'' ''Nicht angeschlossen'' (fst st))
              else AList.update ''status'' (''Verf'' @ [CHR 0xFC] @ ''gbar'') (fst st)))))))
        (\<lambda>error. throw (''Drive Unit Info-Lesefehler: '' @ error)) s)"

definition readBatteryManagementInfo_local :: "'t wrapper_ops \<Rightarrow> ((string \<times> string) list, 't tool) js" where
  "readBatteryManagementInfo_local W s =
     (if \<not> isConnected s then throw msg_not_connected s
      else try_catch
        (bind_js (aux_block W ''partNumber'' BMS_PART_NUMBER (\<lambda>r. js_length r > 0)
                    (\<lambda>r. hexToArticleNumber_local (js_slice r 8 18)) ([], False)) (\<lambda>st.
         bind_js (aux_block W ''serialNumber'' BMS_SERIAL_NUMBER (\<lambda>r. js_length r > 0)
                    (\<lambda>r. hexToSerialNumber_local (js_slice r 8 20)) st) (\<lambda>st.
         bind_js (aux_block W ''hardwareVersion'' BMS_HW_VERSION (\<lambda>r. js_length r \<ge> 4)
                    (\<lambda>r. hexToVersion_local (js_slice r 8 12)) st) (\<lambda>st.
         bind_js (aux_block W ''softwareVersion'' BMS_SW_VERSION (\<lambda>r. js_length r \<ge> 4)
                    (\<lambda>r. hexToVersion_local (js_slice r 8 12)) st) (\<lambda>st.
           return_js
             (if snd st
              then AList.update ''message''
                     (''Battery Management System ist nicht am Display angeschlossen oder nicht verf''
                      @ [CHR 0xFC] @ ''gbar'')
                     (AList.update ''status'' ''Nicht angeschlossen'' (fst st))
              else AList.update ''status'' (''Verf'' @ [CHR 0xFC] @ ''gbar'') (fst st)))))))
        (\<lambda>error. throw (''Battery Management Info-Lesefehler: '' @ error)) s)"

text \<open>
  The \<open>for (const task of tasks)\<close> loop of \<open>readAllInformation\<close>: every task is a key and a
  reader (the \<open>name\<close> of a task is never read); the reader's value, or \<open>Fehler:\<close> and the
  message of the error it threw, is stored under the key.
\<close>

fun run_tasks ::
  "(string \<times> (string, 's) js) list \<Rightarrow> (string \<times> jsvalue) list \<Rightarrow> ((string \<times> jsvalue) list, 's) js" where
  "run_tasks [] results s = (Inr results, s)"
| "run_tasks ((key, fn) # tasks) results s =
     (case try_catch (bind_js fn (\<lambda>v. return_js (AList.update key (JStr v) results)))
                     (\<lambda>error. return_js (AList.update key (JStr (''Fehler: '' @ error)) results)) s of
        (Inl e, s') \<Rightarrow> (Inl e, s')
      | (Inr results', s') \<Rightarrow> run_tasks tasks results' s')"

definition tasks_local :: "'t wrapper_ops \<Rightarrow> (string \<times> (string, 't tool) js) list" where
  "tasks_local W =
     [(''serialNumber'', readSerialNumber_local W),
      (''hardwareVersion'', readHardwareVersion_local W),
      (''softwareVersion'', readSoftwareVersion_local W),
      (''productCode'', readProductCode_local W),
      (''articleNumber'', readArticleNumber_local W),
      (''componentType'', readComponentType_local W),
      (''currentTime'', readCurrentTime_local W),
      (''currentDate'', readCurrentDate_local W)]"

definition not_queried :: "string \<Rightarrow> jsvalue" where
  "not_queried what =
     JObj [(''status'', ''Nicht abgefragt''),
           (''message'', what @ '' wird nur im full-Modus abgefragt (Display muss am Fahrrad angeschlossen sein)'')]"

definition read_failed :: "string \<Rightarrow> string \<Rightarrow> jsvalue" where
  "read_failed error what =
     JObj [(''error'', error), (''status'', ''Fehler''), (''message'', what @ '' konnte nicht gelesen werden'')]"

text \<open>\<open>now\<close> is the value of \<open>new Date().toISOString()\<close> at the end of the call.\<close>

definition readAllInformation_local ::
  "'t wrapper_ops \<Rightarrow> string \<Rightarrow> string \<Rightarrow> ((string \<times> jsvalue) list, 't tool) js" where
  "readAllInformation_local W mode now =
     try_catch
       (bind_js (run_tasks (tasks_local W) []) (\<lambda>results.
        bind_js
          (if mode = ''full'' then
             bind_js
               (try_catch
                  (bind_js (readDriveUnitInfo_local W) (\<lambda>du.
                     return_js (AList.update ''driveUnit'' (JObj du) results)))
                  (\<lambda>error. return_js (AList.update ''driveUnit'' (read_failed error ''Drive Unit'') results)))
               (\<lambda>results.
                  try_catch
                    (bind_js (readBatteryManagementInfo_local W) (\<lambda>bms.
                       return_js (AList.update ''batteryManagement'' (JObj bms) results)))
                    (\<lambda>error. return_js (AList.update ''batteryManagement''
                                           (read_failed error ''Battery Management System'') results)))
           else
             return_js (AList.update ''batteryManagement'' (not_queried ''Battery Management'')
                          (AList.update ''driveUnit'' (not_queried ''Drive Unit'') results)))
          (\<lambda>results. return_js (AList.update ''lastUpdate'' (JObj [(''date'', now)]) results))))
       (\<lambda>error. throw (''Allgemeine Informationslese-Fehler: '' @ error))"

section \<open>The BoschDisplayTool of the backend\<close>

text \<open>
  The backend tool is given its wrapper by the constructor. Its \<open>sendData\<close>, \<open>receiveData\<close>,
  \<open>performHandshake\<close> and \<open>disconnect\<close> are the shared ones above; the transaction and the
  readers below differ from the local tool's and use the backend \<open>ProtocolHelper\<close>.
\<close>

definition sendUdsRequest ::
  "'t wrapper_ops \<Rightarrow> byte \<Rightarrow> byte list \<Rightarrow> byte list \<Rightarrow> nat \<Rightarrow> (jsbytes, 't tool) js" where
  "sendUdsRequest W sid dataIdentifier additionalData timeout s =
     (if \<not> isConnected s then throw msg_not_connected s
      else try_catch
             (bind_js (sendData W (createUdsFrame sid dataIdentifier additionalData)) (\<lambda>sent.
              bind_js (receiveData W timeout) (\<lambda>response.
              bind_js (lift_js (parseUdsResponse response)) (\<lambda>parsedResponse.
                if isResponseSuccessful response then return_js response
                else throw (''UDS-Response-Fehler: Service ''
                            @ toString16 (unat (serviceId parsedResponse)))))))
             (\<lambda>error. if includes_str error ''Timeout'' \<or> includes_str error ''TIMEOUT''
                      then throw ''TIMEOUT''
                      else throw (''UDS-Request-Fehler: '' @ error)) s)"

definition msg_invalid_response_for :: "string \<Rightarrow> string" where
  "msg_invalid_response_for what = ''Ung'' @ [CHR 0xFC] @ ''ltige Response f'' @ [CHR 0xFC] @ ''r '' @ what"

text \<open>
  The eight readers of the backend share one shape: the request, a second
  \<open>parseUdsResponse\<close> of the raw response, a check of \<open>isPositiveResponse\<close> and of the number
  of data bytes, and the decoder. \<open>read_parsed\<close> is the part up to the decoder.
\<close>

definition read_parsed ::
  "'t wrapper_ops \<Rightarrow> byte list \<Rightarrow> nat \<Rightarrow> string \<Rightarrow> string \<Rightarrow> (jsbytes \<Rightarrow> (string, 't tool) js)
     \<Rightarrow> (string, 't tool) js" where
  "read_parsed W dataIdentifier min_data what msg_none decode =
     bind_js (sendUdsRequest W READ_DATA_BY_IDENTIFIER dataIdentifier [] 3000) (\<lambda>response.
       if js_length response > 0 then
         bind_js (lift_js (parseUdsResponse response)) (\<lambda>parsed.
           if isPositiveResponse parsed \<and> js_length (data parsed) \<ge> min_data
           then decode (data parsed)
           else throw (msg_invalid_response_for what))
       else throw msg_none)"

definition readSerialNumber :: "'t wrapper_ops \<Rightarrow> (string, 't tool) js" where
  "readSerialNumber W =
     try_catch
       (read_parsed W SERIAL_NUMBER 1 ''Seriennummer'' ''Keine Seriennummer empfangen'' (\<lambda>d.
          (let serialData = js_slice d 0 (min 20 (js_length d));
               serial = hexToSerialNumber serialData
           in return_js (or_else serial ''Seriennummer nicht lesbar''))))
       (\<lambda>error. throw (''Seriennummer-Lesefehler: '' @ error))"

definition readHardwareVersion :: "'t wrapper_ops \<Rightarrow> (string, 't tool) js" where
  "readHardwareVersion W =
     try_catch
       (read_parsed W HARDWARE_VERSION 2 ''Hardware-Version'' ''Keine Hardware-Version empfangen'' (\<lambda>d.
          return_js (hexToVersion (js_slice d 0 2))))
       (\<lambda>error. throw (''Hardware-Version-Lesefehler: '' @ error))"

definition readSoftwareVersion :: "'t wrapper_ops \<Rightarrow> (string, 't tool) js" where
  "readSoftwareVersion W =
     try_catch
       (read_parsed W SOFTWARE_VERSION 2 ''Software-Version'' ''Keine Software-Version empfangen'' (\<lambda>d.
          return_js (hexToVersion (js_slice d 0 2))))
       (\<lambda>error. throw (''Software-Version-Lesefehler: '' @ error))"

definition readProductCode :: "'t wrapper_ops \<Rightarrow> (string, 't tool) js" where
  "readProductCode W =
     try_catch
       (read_parsed W BOSCH_PRODUCT_CODE 1 ''Produktcode'' ''Kein Produktcode empfangen'' (\<lambda>d.
          return_js (or_else (hexToAscii (js_slice d 0 (min 10 (js_length d)))) ''Produktcode nicht lesbar'')))
       (\<lambda>error. throw (''Produktcode-Lesefehler: '' @ error))"

definition readArticleNumber :: "'t wrapper_ops \<Rightarrow> (string, 't tool) js" where
  "readArticleNumber W =
     try_catch
       (read_parsed W HMI_PART_NUMBER 1 ''Artikelnummer'' ''Keine Artikelnummer empfangen'' (\<lambda>d.
          return_js (or_else (hexToArticleNumber (js_slice d 0 (min 15 (js_length d))))
                       ''Artikelnummer nicht lesbar'')))
       (\<lambda>error. throw (''Artikelnummer-Lesefehler: '' @ error))"

definition readComponentType :: "'t wrapper_ops \<Rightarrow> (string, 't tool) js" where
  "readComponentType W =
     try_catch
       (read_parsed W COMPONENT_TYPE 1 ''Komponententyp'' ''Kein Komponententyp empfangen'' (\<lambda>d.
          (case js_at d 0 of
             None \<Rightarrow> throw msg_undefined_toString
           | Some componentCode \<Rightarrow>
               (case COMPONENT_TYPES componentCode of
                  Some name \<Rightarrow> return_js name
                | None \<Rightarrow> return_js (''Unbekannt (0x'' @ toString16 (unat componentCode) @ '')'')))))
       (\<lambda>error. throw (''Komponententyp-Lesefehler: '' @ error))"

definition readCurrentTime :: "'t wrapper_ops \<Rightarrow> (string, 't tool) js" where
  "readCurrentTime W =
     try_catch
       (bind_js (sendUdsRequest W READ_DATA_BY_IDENTIFIER CURRENT_TIME [] 3000) (\<lambda>response.
          if js_length response \<ge> 2 then
            (let dataStart = (if js_length response > 8 then 8 else 5)
             in return_js (hexToTime (js_slice response dataStart (dataStart + 2))))
          else throw ''Keine Uhrzeit empfangen''))
       (\<lambda>error. throw (''Uhrzeit-Lesefehler: '' @ error))"

definition readCurrentDate :: "'t wrapper_ops \<Rightarrow> (string, 't tool) js" where
  "readCurrentDate W =
     try_catch
       (bind_js (sendUdsRequest W READ_DATA_BY_IDENTIFIER CURRENT_DATE [] 3000) (\<lambda>response.
          if js_length response \<ge> 3 then
            (let dataStart = (if js_length response > 8 then 8 else 5)
             in return_js (hexToDate (js_slice response dataStart (dataStart + 3))))
          else throw ''Kein Datum empfangen''))
       (\<lambda>error. throw (''Datum-Lesefehler: '' @ error))"

definition tasks :: "'t wrapper_ops \<Rightarrow> (string \<times> (string, 't tool) js) list" where
  "tasks W =
     [(''serialNumber'', readSerialNumber W),
      (''hardwareVersion'', readHardwareVersion W),
      (''softwareVersion'', readSoftwareVersion W),
      (''productCode'', readProductCode W),
      (''articleNumber'', readArticleNumber W),
      (''componentType'', readComponentType W),
      (''currentTime'', readCurrentTime W),
      (''currentDate'', readCurrentDate W)]"

definition readAllInformation ::
  "'t wrapper_ops \<Rightarrow> string \<Rightarrow> string \<Rightarrow> ((string \<times> jsvalue) list, 't tool) js" where
  "readAllInformation W mode now =
     try_catch
       (bind_js (run_tasks (tasks W) []) (\<lambda>results.
          return_js (AList.update ''lastUpdate'' (JObj [(''date'', now)]) results)))
       (\<lambda>error. throw (''Allgemeine Informationslese-Fehler: '' @ error))"

section \<open>A scripted wrapper\<close>

text \<open>
  A concrete wrapper for running the tools: its state is the queue of frames the device will
  still send. \<open>read\<close> hands out the next frame and fails with the timeout message of
  \<open>SimpleHidWrapper.read\<close> once the queue is empty; \<open>write\<close> reports 65 bytes written.
\<close>

definition queue_wrapper :: "jsbytes list \<Rightarrow> jsbytes list wrapper_ops" where
  "queue_wrapper frames =
     \<lparr> wrapper_new = (\<lambda>dev. frames),
       wrapper_open = (\<lambda>t. (Inr (), t)),
       wrapper_write = (\<lambda>bytes t. (Inr 65, t)),
       wrapper_read = (\<lambda>timeout t. case t of [] \<Rightarrow> (Inl ''Timeout beim Lesen von Daten'', t)
                                          | frame # rest \<Rightarrow> (Inr frame, rest)),
       wrapper_close = (\<lambda>t. (Inr (), t)) \<rparr>"

definition connected_tool :: "'t \<Rightarrow> 't tool" where
  \<comment> \<open>a tool that is connected to a Bosch display, with wrapper state \<open>t\<close>\<close>
  "connected_tool t =
     \<lparr> device = Some \<lparr>vendorId = 0x108c, productId = 0x155\<rparr>, wrapper = Some t,
       isConnected = True, sequenceNumber = 0, io_log = [] \<rparr>"

definition close_fails :: "unit wrapper_ops" where
  \<comment> \<open>a wrapper whose \<open>close\<close> throws\<close>
  "close_fails =
     \<lparr> wrapper_new = (\<lambda>dev. ()),
       wrapper_open = (\<lambda>t. (Inr (), t)),
       wrapper_write = (\<lambda>bytes t. (Inr 65, t)),
       wrapper_read = (\<lambda>timeout t. (Inl ''Timeout beim Lesen von Daten'', t)),
       wrapper_close = (\<lambda>t. (Inl ''could not close'', t)) \<rparr>"

section \<open>Notions of the specification\<close>

text \<open>
  The serial number as the specification words it: \<open>0x\<close> and the upper-case hexadecimal
  rendering of the first 20 bytes, or of all bytes when there are fewer.
\<close>

definition upper_hex :: "byte list \<Rightarrow> string" where
  "upper_hex bs = toUpperCase (concat (map hex2 bs))"

definition serial_number_spec :: "jsbytes \<Rightarrow> string" where
  "serial_number_spec hexData = ''0x'' @ upper_hex (take 20 (elems hexData))"

text \<open>
  The primary field slots of the result record, and what it means for a slot to be filled by
  its reader: it holds the value the reader returned, or \<open>Fehler:\<close> followed by the message
  of the error the reader threw.
\<close>

definition primary_keys :: "string list" where
  "primary_keys = [''serialNumber'', ''hardwareVersion'', ''softwareVersion'', ''productCode'',
                   ''articleNumber'', ''componentType'', ''currentTime'', ''currentDate'']"

definition slot_filled :: "(string, 's) js \<Rightarrow> string \<Rightarrow> bool" where
  "slot_filled reader v =
     (\<exists>s0 s1. reader s0 = (Inr v, s1) \<or> (\<exists>e. reader s0 = (Inl e, s1) \<and> v = ''Fehler: '' @ e))"

section \<open>Basic facts\<close>

lemmas js_defs = bind_js_def try_catch_def throw_def return_js_def lift_js_def

lemma same_kind_elems [simp]: "elems (same_kind b ys) = ys"
  by (cases b) simp_all

lemma join_empty_sep: "join [] xs = concat xs"
  by (induction "[] :: string" xs rule: join.induct) simp_all

lemma toString16_digit: "n < 16 \<Longrightarrow> toString16 n = [digit_char n]"
  by (subst toString16.simps) simp

lemma toString10_digit: "n < 10 \<Longrightarrow> toString10 n = [digit_char n]"
  by (subst toString10.simps) simp

lemma length_toString16_byte: "n < 256 \<Longrightarrow> length (toString16 n) \<le> 2"
  by (subst toString16.simps) (simp add: toString16_digit)

lemma length_toString10_small: "n < 100 \<Longrightarrow> length (toString10 n) \<le> 2"
  by (subst toString10.simps) (simp add: toString10_digit)

lemma length_hex2: "length (hex2 b) = 2"
proof -
  have "unat b < 2 ^ LENGTH(8)" by (rule unsigned_less)
  then have "unat b < 256" by simp
  from length_toString16_byte [OF this] show ?thesis
    by (simp add: hex2_def padStart_def)
qed

lemma startsWith_length: "startsWith s sub \<Longrightarrow> length sub \<le> length s"
  by (induction s sub rule: startsWith.induct) simp_all

lemma includes_str_length: "includes_str s sub \<Longrightarrow> length sub \<le> length s"
  by (induction s) (auto dest: startsWith_length)

lemma startsWith_set: "startsWith s sub \<Longrightarrow> set sub \<subseteq> set s"
  by (induction s sub rule: startsWith.induct) auto

lemma includes_str_set: "includes_str s sub \<Longrightarrow> set sub \<subseteq> set s"
proof (induction s)
  case Nil
  then show ?case by simp
next
  case (Cons c cs)
  from Cons.prems have "startsWith (c # cs) sub \<or> includes_str cs sub" by simp
  then show ?case
  proof
    assume "startsWith (c # cs) sub"
    then show ?thesis by (rule startsWith_set)
  next
    assume "includes_str cs sub"
    then have "set sub \<subseteq> set cs" by (rule Cons.IH)
    then show ?thesis by auto
  qed
qed

lemma digit_char_set: "d < 16 \<Longrightarrow> digit_char d \<in> set ''0123456789abcdef''"
  unfolding digit_char_def by (rule nth_mem) simp

lemma set_toString16: "set (toString16 n) \<subseteq> set ''0123456789abcdef''"
proof (induction n rule: toString16.induct)
  case (1 n)
  show ?case
  proof (cases "n < 16")
    case True
    then show ?thesis using digit_char_set [of n] by (subst toString16.simps) simp
  next
    case False
    have "n mod 16 < 16" by simp
    from digit_char_set [OF this] 1 [OF False] False show ?thesis
      by (subst toString16.simps) simp
  qed
qed

lemma pad2_examples:
  "pad2 14 = ''14''" "pad2 30 = ''30''" "pad2 74 = ''74''" "pad2 200 = ''200''"
  by (simp_all add: pad2_def padStart_def toString10.simps digit_char_def)

section \<open>Frame decoding\<close>

text \<open>
  C1. The backend \<open>parseUdsResponse\<close> throws exactly when the frame has fewer than 6 bytes or
  byte 0 is not 0x01 or byte 1 is not 0x00; on every other frame it returns dataLength = byte 3,
  serviceId = byte 4, responseCode = byte 5 and data = the bytes from index 6 onward.
\<close>

theorem parseUdsResponse_malformed_iff:
  "(js_length response < 6 \<or> js_at response 0 \<noteq> Some 0x01 \<or> js_at response 1 \<noteq> Some 0x00
      \<longrightarrow> (\<exists>msg. parseUdsResponse response = Inl msg))
   \<and> (\<not> (js_length response < 6 \<or> js_at response 0 \<noteq> Some 0x01 \<or> js_at response 1 \<noteq> Some 0x00)
      \<longrightarrow> (\<exists>r. parseUdsResponse response = Inr r
            \<and> dataLength r = elems response ! 3
            \<and> serviceId r = elems response ! 4
            \<and> responseCode r = elems response ! 5
            \<and> data r = js_slice_from response 6))"
  by (simp add: parseUdsResponse_def)

theorem parseUdsResponse_malformed_iff_witness:
  "(\<exists>msg. parseUdsResponse (JsBuffer [0x01, 0x00, 0x3D, 0x04]) = Inl msg)
   \<and> (\<exists>r. parseUdsResponse (JsBuffer [0x01, 0x00, 0x00, 0x04, 0x22, 0x62, 0x02, 0x72]) = Inr r
        \<and> dataLength r = 0x04 \<and> serviceId r = 0x22 \<and> responseCode r = 0x62
        \<and> data r = JsBuffer [0x02, 0x72])"
  using parseUdsResponse_malformed_iff [of "JsBuffer [0x01, 0x00, 0x3D, 0x04]"]
    parseUdsResponse_malformed_iff [of "JsBuffer [0x01, 0x00, 0x00, 0x04, 0x22, 0x62, 0x02, 0x72]"]
  by (simp add: js_length_def js_at_def js_slice_from_def)


text \<open>
  The local engine rejects the same frames as the backend, with shorter messages.
\<close>

lemma parse_reject_same:
  "(\<exists>m. parseUdsResponse response = Inl m) \<longleftrightarrow> (\<exists>m. parseUdsResponse_local response = Inl m)"
  by (simp add: parseUdsResponse_def parseUdsResponse_local_def)

section \<open>Frame encoding\<close>

lemma pad_frame_eq: "pad_frame frame = frame @ replicate (REPORT_SIZE - length frame) 0x00"
proof (induction frame rule: pad_frame.induct)
  case (1 frame)
  show ?case
  proof (cases "length frame < REPORT_SIZE")
    case True
    then have "REPORT_SIZE - length frame = Suc (REPORT_SIZE - length (frame @ [0x00]))" by simp
    with True 1 show ?thesis
      by (subst pad_frame.simps) (simp add: replicate_app_Cons_same)
  next
    case False
    then show ?thesis by (subst pad_frame.simps) simp
  qed
qed

lemma pad_report_eq: "pad_report r = r @ replicate (65 - length r) 0x00"
proof (induction r rule: pad_report.induct)
  case (1 r)
  show ?case
  proof (cases "length r < 65")
    case True
    then have "65 - length r = Suc (65 - length (r @ [0x00]))" by simp
    with True 1 show ?thesis
      by (subst pad_report.simps) (simp add: replicate_app_Cons_same)
  next
    case False
    then show ?thesis by (subst pad_report.simps) simp
  qed
qed

lemma createUdsFrame_eq:
  "createUdsFrame sid did extra =
     [0x01, 0x00, 0x3A, 0x08, 0x03, sid] @ did @ extra @ replicate (58 - length did - length extra) 0x00"
  by (simp add: createUdsFrame_def pad_frame_eq HID_FRAME_HEADERS_REQUEST_def REPORT_SIZE_def)

lemma length_createUdsFrame:
  "length (createUdsFrame sid did extra) = max 64 (6 + length did + length extra)"
  by (simp add: createUdsFrame_eq)

lemma reportArray_long: "64 \<le> length frame \<Longrightarrow> reportArray frame = 0x00 # take 64 frame"
  by (auto simp: reportArray_def Let_def pad_report_eq)

text \<open>
  C2, as the code has it. For a 2-byte identifier the frame of \<open>createUdsFrame\<close> is the header
  01 00 3A 08, the byte 03, the service id, the identifier and the extra bytes, filled with zero
  bytes up to 64; it is never cut, so its length is 64 for at most 56 extra bytes and
  8 + the number of extra bytes beyond that. The cut happens in \<open>SimpleHidWrapper.write\<close>:
  the report it builds is always the report id 00 followed by the first 64 bytes of the frame,
  65 bytes in all.
\<close>

theorem createUdsFrame_layout:
  "length dataIdentifier = 2 \<longrightarrow>
     createUdsFrame sid dataIdentifier extra =
       [0x01, 0x00, 0x3A, 0x08, 0x03, sid] @ dataIdentifier @ extra @ replicate (56 - length extra) 0x00
     \<and> length (createUdsFrame sid dataIdentifier extra) = max 64 (8 + length extra)
     \<and> reportArray (createUdsFrame sid dataIdentifier extra)
         = 0x00 # take 64 (createUdsFrame sid dataIdentifier extra)
     \<and> length (reportArray (createUdsFrame sid dataIdentifier extra)) = 65"
proof (intro impI conjI)
  assume two: "length dataIdentifier = 2"
  show "createUdsFrame sid dataIdentifier extra =
          [0x01, 0x00, 0x3A, 0x08, 0x03, sid] @ dataIdentifier @ extra @ replicate (56 - length extra) 0x00"
    using two by (simp add: createUdsFrame_eq)
  show "length (createUdsFrame sid dataIdentifier extra) = max 64 (8 + length extra)"
    using two by (simp add: length_createUdsFrame)
  have long: "64 \<le> length (createUdsFrame sid dataIdentifier extra)"
    by (simp add: length_createUdsFrame)
  show "reportArray (createUdsFrame sid dataIdentifier extra)
          = 0x00 # take 64 (createUdsFrame sid dataIdentifier extra)"
    using long by (rule reportArray_long)
  show "length (reportArray (createUdsFrame sid dataIdentifier extra)) = 65"
    using long by (simp add: reportArray_long)
qed

theorem createUdsFrame_layout_witness:
  "length [0x02, 0x42 :: byte] = 2
   \<and> createUdsFrame 0x22 [0x02, 0x42] [] = [0x01, 0x00, 0x3A, 0x08, 0x03, 0x22, 0x02, 0x42] @ replicate 56 0x00
   \<and> length (createUdsFrame 0x22 [0x02, 0x42] []) = 64"
  using createUdsFrame_layout [of "[0x02, 0x42]" "0x22" "[]"] by simp

text \<open>
  C2 as stated fails: with 57 extra bytes the frame of \<open>createUdsFrame\<close> has 65 bytes, not 64.
\<close>

theorem createUdsFrame_not_truncated:
  "length (createUdsFrame 0x2E [0x02, 0x3A] (replicate 57 0x11)) \<noteq> 64"
  by (simp add: length_createUdsFrame)

section \<open>Field decoders\<close>

text \<open>
  C6, as the code has it. On an input that starts with the bytes \<open>byte1\<close>, \<open>byte2\<close> the
  backend \<open>hexToTime\<close> prints \<open>byte1:byte2\<close> whenever \<open>byte2\<close> is below 60; it swaps the two only
  when \<open>byte2\<close> is not below 60 and \<open>byte1\<close> is; when neither is below 60 it prints
  \<open>byte1:byte2\<close> again. Every part is a decimal number padded to two digits.
\<close>

theorem hexToTime_order:
  "elems hexData = byte1 # byte2 # rest \<longrightarrow>
     (byte2 < 60 \<longrightarrow> hexToTime hexData = pad2 byte1 @ '':'' @ pad2 byte2)
     \<and> (\<not> byte2 < 60 \<and> byte1 < 60 \<longrightarrow> hexToTime hexData = pad2 byte2 @ '':'' @ pad2 byte1)
     \<and> (\<not> byte2 < 60 \<and> \<not> byte1 < 60 \<longrightarrow> hexToTime hexData = pad2 byte1 @ '':'' @ pad2 byte2)"
  by (simp add: hexToTime_def js_length_def Let_def)

theorem hexToTime_order_witness:
  "hexToTime (JsArray [14, 30]) = ''14:30''
   \<and> hexToTime (JsBuffer [30, 74]) = ''74:30''
   \<and> hexToTime (JsArray [200, 74]) = ''200:74''"
  using hexToTime_order [of "JsArray [14, 30]" 14 30 "[]"]
        hexToTime_order [of "JsBuffer [30, 74]" 30 74 "[]"]
        hexToTime_order [of "JsArray [200, 74]" 200 74 "[]"]
  by (simp add: pad2_examples)

text \<open>
  C6 as stated fails: the bytes 30, 14 decode to 30:14, not to 14:30, because the second byte
  is a valid minute already.
\<close>

theorem hexToTime_no_swap:
  "hexToTime (JsArray [30, 14]) = ''30:14'' \<and> hexToTime (JsArray [30, 14]) \<noteq> ''14:30''"
  by (simp add: hexToTime_def js_length_def pad2_def padStart_def toString10.simps digit_char_def)

text \<open>
  C7, as the code has it. On a plain array of bytes the backend \<open>hexToSerialNumber\<close> returns
  \<open>0x\<close> and the upper-case hexadecimal rendering of the first 20 bytes, unless that rendering
  contains the text 37FFD705564E313046442000, in which case it returns \<open>0x\<close> and that text
  alone.
\<close>

theorem hexToSerialNumber_array:
  "hexToSerialNumber (JsArray xs) =
     (if includes_str (upper_hex (take 20 xs)) expectedPattern then ''0x'' @ expectedPattern
      else serial_number_spec (JsArray xs))"
  by (simp add: hexToSerialNumber_def js_slice_def js_length_def Let_def join_empty_sep
        upper_hex_def serial_number_spec_def min_def)

lemma serial_examples:
  "includes_str (upper_hex [0x01, 0xAB]) expectedPattern = False"
  "serial_number_spec (JsArray [0x01, 0xAB]) = ''0x01AB''"
  "includes_str (upper_hex [0x37, 0xFF, 0xD7, 0x05, 0x56, 0x4E, 0x31, 0x30, 0x46, 0x44, 0x20, 0x00])
     expectedPattern = True"
  by code_simp+

theorem hexToSerialNumber_array_witness:
  "hexToSerialNumber (JsArray [0x01, 0xAB]) = ''0x01AB''
   \<and> hexToSerialNumber (JsArray [0x37, 0xFF, 0xD7, 0x05, 0x56, 0x4E, 0x31, 0x30, 0x46, 0x44, 0x20, 0x00])
       = ''0x37FFD705564E313046442000''"
  using hexToSerialNumber_array [of "[0x01, 0xAB]"]
        hexToSerialNumber_array [of "[0x37, 0xFF, 0xD7, 0x05, 0x56, 0x4E, 0x31, 0x30, 0x46, 0x44, 0x20, 0x00]"]
  by (simp add: serial_examples) (simp add: expectedPattern_def)

text \<open>
  C7 as stated fails: the output depends on the contents. Thirteen bytes, a zero byte followed
  by the twelve bytes of the expected serial number, do not give the rendering of the thirteen
  bytes.
\<close>

theorem hexToSerialNumber_pattern:
  "hexToSerialNumber
     (JsArray [0x00, 0x37, 0xFF, 0xD7, 0x05, 0x56, 0x4E, 0x31, 0x30, 0x46, 0x44, 0x20, 0x00])
     = ''0x37FFD705564E313046442000''
   \<and> serial_number_spec
     (JsArray [0x00, 0x37, 0xFF, 0xD7, 0x05, 0x56, 0x4E, 0x31, 0x30, 0x46, 0x44, 0x20, 0x00])
     = ''0x0037FFD705564E313046442000''"
  by code_simp

text \<open>
  On a \<open>Buffer\<close> the hexadecimal strings are stored back as numbers before they are joined.
  The comment in the backend \<open>hexToSerialNumber\<close> quotes the output
  0x24237005560313046442000560313046 where 0x37FFD705564E313046442000 was expected; these
  twenty bytes, which hold the expected serial number from the third byte on, produce it.
\<close>

lemma hexToSerialNumber_buffer_observed:
  "hexToSerialNumber
     (JsBuffer [0x02, 0x42, 0x37, 0xFF, 0xD7, 0x05, 0x56, 0x4E, 0x31, 0x30, 0x46, 0x44, 0x20, 0x00,
                0x00, 0x56, 0x4E, 0x31, 0x30, 0x46])
     = ''0x24237005560313046442000560313046''"
  by code_simp

section \<open>The two protocol engines compared\<close>

lemma decimal_value_two: "isDigit c \<Longrightarrow> isDigit d \<Longrightarrow> decimal_value [c, d] < 100"
  by (simp add: decimal_value_def isDigit_def) arith

lemma stored_uint8_hex2: "unat (stored_uint8 (hex2 b)) < 100"
proof -
  obtain c d where cd: "hex2 b = [c, d]"
    using length_hex2 [of b] by (metis length_0_conv length_Suc_conv numeral_2_eq_2)
  show ?thesis
  proof (cases "isDigit c \<and> isDigit d")
    case True
    then have "decimal_value [c, d] < 100" by (simp add: decimal_value_two)
    then show ?thesis using True by (simp add: stored_uint8_def cd unat_of_nat)
  next
    case False
    then show ?thesis by (auto simp: stored_uint8_def cd)
  qed
qed

lemma length_hex_map_join: "length (hex_map_join [] b) \<le> 2 * js_length b"
proof (cases b)
  case (JsArray xs)
  have "length (concat (map hex2 xs)) = 2 * length xs"
    by (induction xs) (simp_all add: length_hex2)
  then show ?thesis using JsArray by (simp add: join_empty_sep js_length_def)
next
  case (JsBuffer xs)
  have "length (concat (map (\<lambda>b. toString10 (unat (stored_uint8 (hex2 b)))) xs)) \<le> 2 * length xs"
  proof (induction xs)
    case Nil
    then show ?case by simp
  next
    case (Cons x xs)
    have "length (toString10 (unat (stored_uint8 (hex2 x)))) \<le> 2"
      by (rule length_toString10_small [OF stored_uint8_hex2])
    with Cons show ?case by simp
  qed
  then show ?thesis using JsBuffer by (simp add: join_empty_sep js_length_def)
qed

lemma hexToSerialNumber_short:
  assumes "js_length hexData < 12"
  shows "hexToSerialNumber hexData = hexToSerialNumber_local hexData"
proof -
  let ?s = "js_slice hexData 0 (min (js_length hexData) 20)"
  have s: "?s = js_slice hexData 0 12"
    using assms by (simp add: js_slice_def js_length_def min_def)
  have "js_length ?s < 12" using assms by (simp add: js_slice_def js_length_def)
  with length_hex_map_join [of ?s] have "length (toUpperCase (hex_map_join [] ?s)) < 24"
    by (simp add: toUpperCase_def)
  then have "\<not> includes_str (toUpperCase (hex_map_join [] ?s)) expectedPattern"
    using includes_str_length [of "toUpperCase (hex_map_join [] ?s)" expectedPattern]
    by (auto simp: expectedPattern_def)
  then show ?thesis
    unfolding hexToSerialNumber_def hexToSerialNumber_local_def Let_def s by simp
qed

lemma parse_accept_layout:
  "parseUdsResponse response = Inr p \<Longrightarrow>
     (\<exists>q. parseUdsResponse_local response = Inr q
        \<and> dataLength_local q = elems response ! 2 \<and> serviceId_local q = elems response ! 3
        \<and> data_local q = js_slice_from response 5)
     \<and> dataLength p = elems response ! 3 \<and> serviceId p = elems response ! 4
     \<and> data p = js_slice_from response 6"
  by (auto simp: parseUdsResponse_def parseUdsResponse_local_def split: if_splits)

lemma hexToVersion_agree:
  "js_length hexData \<ge> 4 \<or> js_length hexData < 2 \<Longrightarrow> hexToVersion hexData = hexToVersion_local hexData"
  by (auto simp: hexToVersion_def hexToVersion_local_def)

lemma hexToTime_agree:
  "js_length hexData < 2 \<or> elems hexData ! 1 < 60 \<or> \<not> elems hexData ! 0 < 60
     \<Longrightarrow> hexToTime hexData = hexToTime_local hexData"
  by (auto simp: hexToTime_def hexToTime_local_def Let_def)

lemma hexToDate_agree:
  "js_length hexData < 3 \<Longrightarrow> hexToDate hexData = hexToDate_local hexData"
  by (auto simp: hexToDate_def hexToDate_local_def)

lemma hexToAscii_strip:
  "hexToAscii hexData = dropWhile (\<lambda>c. \<not> isAlnum c) (hexToAscii_local hexData)"
  by (simp add: hexToAscii_def hexToAscii_local_def Let_def)

lemma hexToArticleNumber_strip:
  "hexToArticleNumber hexData =
     rev (dropWhile (\<lambda>c. \<not> isDigit c)
       (rev (if startsWith (hexToArticleNumber_local hexData) ''2''
             then drop 1 (hexToArticleNumber_local hexData) else hexToArticleNumber_local hexData)))"
  by (simp add: hexToArticleNumber_def hexToArticleNumber_local_def Let_def)

text \<open>
  C9, as the code has it. The two engines are close but not equivalent. They reject the same
  frames; on a frame both accept, the local engine takes dataLength from byte 2, serviceId from
  byte 3 and the data from index 5, the backend from byte 3, byte 4 and index 6. The decoders
  agree on part of their inputs only: \<open>hexToVersion\<close> on at least 4 or fewer than 2 bytes,
  \<open>hexToTime\<close> unless the second byte is 60 or more and the first is below 60, \<open>hexToDate\<close>
  on fewer than 3 bytes, \<open>hexToSerialNumber\<close> on fewer than 12 bytes. The backend
  \<open>hexToAscii\<close> is the local result without its leading non-alphanumeric characters, and the
  backend \<open>hexToArticleNumber\<close> is the local result without one leading 2 and without its
  trailing non-digits.
\<close>

theorem protocol_helpers_agreement:
  "((\<exists>m. parseUdsResponse response = Inl m) \<longleftrightarrow> (\<exists>m. parseUdsResponse_local response = Inl m))
   \<and> (parseUdsResponse response = Inr p \<longrightarrow>
        (\<exists>q. parseUdsResponse_local response = Inr q
           \<and> dataLength_local q = elems response ! 2 \<and> serviceId_local q = elems response ! 3
           \<and> data_local q = js_slice_from response 5)
        \<and> dataLength p = elems response ! 3 \<and> serviceId p = elems response ! 4
        \<and> data p = js_slice_from response 6)
   \<and> (js_length hexData \<ge> 4 \<or> js_length hexData < 2 \<longrightarrow> hexToVersion hexData = hexToVersion_local hexData)
   \<and> (js_length hexData < 2 \<or> elems hexData ! 1 < 60 \<or> \<not> elems hexData ! 0 < 60
        \<longrightarrow> hexToTime hexData = hexToTime_local hexData)
   \<and> (js_length hexData < 3 \<longrightarrow> hexToDate hexData = hexToDate_local hexData)
   \<and> (js_length hexData < 12 \<longrightarrow> hexToSerialNumber hexData = hexToSerialNumber_local hexData)
   \<and> hexToAscii hexData = dropWhile (\<lambda>c. \<not> isAlnum c) (hexToAscii_local hexData)
   \<and> hexToArticleNumber hexData =
       rev (dropWhile (\<lambda>c. \<not> isDigit c)
         (rev (if startsWith (hexToArticleNumber_local hexData) ''2''
               then drop 1 (hexToArticleNumber_local hexData) else hexToArticleNumber_local hexData)))"
  using parse_reject_same [of response] parse_accept_layout [of response p]
    hexToVersion_agree [of hexData] hexToTime_agree [of hexData] hexToDate_agree [of hexData]
    hexToSerialNumber_short [of hexData] hexToAscii_strip [of hexData]
    hexToArticleNumber_strip [of hexData]
  by blast

lemma agreement_examples:
  "parseUdsResponse (JsBuffer [0x01, 0x00, 0x3D, 0x04, 0x22, 0x62, 0x02, 0x72])
     = Inr \<lparr> serviceId = 0x22, dataLength = 0x04, responseCode = 0x62, data = JsBuffer [0x02, 0x72],
             isPositiveResponse = True, isNegativeResponse = False \<rparr>"
  "js_length (JsArray [0x01, 0xAB]) = 2"
  by (simp_all add: parseUdsResponse_def js_length_def js_at_def js_slice_from_def)

theorem protocol_helpers_agreement_witness:
  "(\<exists>q. parseUdsResponse_local (JsBuffer [0x01, 0x00, 0x3D, 0x04, 0x22, 0x62, 0x02, 0x72]) = Inr q
      \<and> dataLength_local q = 0x3D \<and> serviceId_local q = 0x04 \<and> data_local q = JsBuffer [0x62, 0x02, 0x72])
   \<and> hexToVersion (JsArray []) = hexToVersion_local (JsArray [])
   \<and> hexToTime (JsArray []) = hexToTime_local (JsArray [])
   \<and> hexToDate (JsArray []) = hexToDate_local (JsArray [])
   \<and> hexToSerialNumber (JsArray [0x01, 0xAB]) = hexToSerialNumber_local (JsArray [0x01, 0xAB])"
  using protocol_helpers_agreement
          [of "JsBuffer [0x01, 0x00, 0x3D, 0x04, 0x22, 0x62, 0x02, 0x72]"
              "\<lparr> serviceId = 0x22, dataLength = 0x04, responseCode = 0x62, data = JsBuffer [0x02, 0x72],
                 isPositiveResponse = True, isNegativeResponse = False \<rparr>"
              "JsArray []"]
        protocol_helpers_agreement [of _ _ "JsArray [0x01, 0xAB]"]
  by (simp add: agreement_examples js_length_def js_slice_from_def)

text \<open>
  C9 as stated fails: on the same input the two engines return different service ids, and each
  of the six decoders returns different strings.
\<close>

theorem protocol_helpers_differ:
  "serviceId_local (projr (parseUdsResponse_local (JsBuffer [0x01, 0x00, 0x3D, 0x04, 0x22, 0x62, 0x02, 0x72])))
     \<noteq> serviceId (projr (parseUdsResponse (JsBuffer [0x01, 0x00, 0x3D, 0x04, 0x22, 0x62, 0x02, 0x72])))
   \<and> hexToDate (JsArray [24, 6, 15]) \<noteq> hexToDate_local (JsArray [24, 6, 15])
   \<and> hexToTime (JsArray [30, 74]) \<noteq> hexToTime_local (JsArray [30, 74])
   \<and> hexToVersion (JsArray [0x02, 0x72]) \<noteq> hexToVersion_local (JsArray [0x02, 0x72])
   \<and> hexToAscii (JsArray [0x5B, 0x42]) \<noteq> hexToAscii_local (JsArray [0x5B, 0x42])
   \<and> hexToArticleNumber (JsArray [0x32, 0x31, 0x25]) \<noteq> hexToArticleNumber_local (JsArray [0x32, 0x31, 0x25])
   \<and> hexToSerialNumber (JsArray (replicate 13 0xAB)) \<noteq> hexToSerialNumber_local (JsArray (replicate 13 0xAB))"
  by code_simp

section \<open>The session: connection state\<close>

text \<open>
  C10. From any state, and whatever the wrapper's \<open>close\<close> does, \<open>disconnect\<close> returns
  without an error, and afterwards the wrapper and the device are \<open>null\<close> and
  \<open>isConnected\<close> is false.
\<close>

theorem disconnect_resets:
  "\<exists>s'. disconnect W s = (Inr (), s') \<and> wrapper s' = None \<and> device s' = None \<and> \<not> isConnected s'"
  by (auto simp: disconnect_def js_defs call_close_def split: option.splits prod.splits sum.splits)

theorem disconnect_resets_witness:
  "fst (call_close close_fails (connected_tool ())) = Inl ''could not close''
   \<and> (\<exists>s'. disconnect close_fails (connected_tool ()) = (Inr (), s')
          \<and> wrapper s' = None \<and> device s' = None \<and> \<not> isConnected s')
   \<and> (\<exists>s'. disconnect close_fails (new_tool None) = (Inr (), s')
          \<and> wrapper s' = None \<and> device s' = None \<and> \<not> isConnected s')"
  using disconnect_resets [of close_fails "connected_tool ()"]
        disconnect_resets [of close_fails "new_tool None"]
  by (simp add: call_close_def close_fails_def connected_tool_def)

lemma sendUdsRequest_local_not_connected:
  "\<not> isConnected s \<Longrightarrow> sendUdsRequest_local W sid did extra timeout s = (Inl msg_not_connected, s)"
  by (simp add: sendUdsRequest_local_def throw_def)

lemma sendData_not_connected:
  "\<not> isConnected s \<Longrightarrow> sendData W bytes s = (Inl msg_not_connected, s)"
  by (simp add: sendData_def throw_def)

lemma readSerialNumber_local_not_connected:
  "\<not> isConnected s \<Longrightarrow>
     readSerialNumber_local W s = (Inl (''Seriennummer-Lesefehler: '' @ msg_not_connected), s)"
  by (simp add: readSerialNumber_local_def js_defs sendUdsRequest_local_not_connected)

lemma connect_local_failed:
  "connect_local W dev s = (Inl e, s') \<Longrightarrow> \<not> isConnected s \<Longrightarrow> \<not> isConnected s'"
  by (auto simp: connect_local_def js_defs split: if_splits prod.splits sum.splits)

text \<open>
  C8. The only state the tool keeps about the session is \<open>isConnected\<close>; it is false in a new
  tool and stays false when \<open>connect\<close> fails. While it is false, \<open>sendUdsRequest\<close> and
  \<open>sendData\<close> throw the not-connected error and a field read throws it under its own prefix;
  each leaves the whole state as it was, the log of wrapper calls included, so nothing is
  written to the transport.
\<close>

theorem not_ready_no_write:
  "(\<not> isConnected s \<longrightarrow>
      sendUdsRequest_local W sid did extra timeout s = (Inl msg_not_connected, s)
      \<and> sendData W bytes s = (Inl msg_not_connected, s)
      \<and> readSerialNumber_local W s = (Inl (''Seriennummer-Lesefehler: '' @ msg_not_connected), s))
   \<and> \<not> isConnected (new_tool None :: 't tool)
   \<and> (\<not> isConnected s \<and> connect_local W dev s = (Inl e, s') \<longrightarrow> \<not> isConnected s')"
  by (auto simp: sendUdsRequest_local_not_connected sendData_not_connected
        readSerialNumber_local_not_connected new_tool_def dest: connect_local_failed)

lemma failed_handshake_example:
  "fst (connect_local (queue_wrapper [JsBuffer [0x00, 0x01, 0x01, 0x01]])
          (Some \<lparr>vendorId = 0x108c, productId = 0x155\<rparr>) (new_tool None))
     = Inl (''Verbindungsfehler: Handshake-Fehler: Handshake fehlgeschlagen - ung'' @ [CHR 0xFC]
            @ ''ltige Response'')"
  by code_simp

theorem not_ready_no_write_witness:
  "\<not> isConnected (new_tool None :: jsbytes list tool)
   \<and> sendUdsRequest_local (queue_wrapper []) 0x22 [0x02, 0x42] [] 3000 (new_tool None)
       = (Inl ''Nicht mit dem Display verbunden!'', new_tool None)
   \<and> io_log (snd (sendUdsRequest_local (queue_wrapper []) 0x22 [0x02, 0x42] [] 3000 (new_tool None))) = []
   \<and> \<not> isConnected (snd (connect_local (queue_wrapper [JsBuffer [0x00, 0x01, 0x01, 0x01]])
                            (Some \<lparr>vendorId = 0x108c, productId = 0x155\<rparr>) (new_tool None)))"
proof -
  let ?W = "queue_wrapper [JsBuffer [0x00, 0x01, 0x01, 0x01]]"
  let ?dev = "Some \<lparr>vendorId = 0x108c, productId = 0x155\<rparr>"
  let ?s = "new_tool None :: jsbytes list tool"
  have fresh: "\<not> isConnected ?s" by (simp add: new_tool_def)
  obtain r s' where c: "connect_local ?W ?dev ?s = (r, s')" by (cases "connect_local ?W ?dev ?s")
  with failed_handshake_example obtain e where r: "r = Inl e" by simp
  from not_ready_no_write [where s = ?s and W = "queue_wrapper []" and sid = "0x22"
                             and did = "[0x02, 0x42]" and extra = "[]" and timeout = 3000]
       not_ready_no_write [where s = ?s and W = ?W and dev = ?dev and e = e and s' = s']
    fresh c r
  show ?thesis by (simp add: msg_not_connected_def new_tool_def)
qed

section \<open>The UDS transaction\<close>

lemma response_error_no_timeout:
  "\<not> includes_str (''UDS-Response-Fehler: Service '' @ toString16 n) ''Timeout''"
  "\<not> includes_str (''UDS-Response-Fehler: Service '' @ toString16 n) ''TIMEOUT''"
proof -
  have "CHR ''T'' \<notin> set (''UDS-Response-Fehler: Service '' @ toString16 n)"
    using set_toString16 [of n] by auto
  then show "\<not> includes_str (''UDS-Response-Fehler: Service '' @ toString16 n) ''Timeout''"
    and "\<not> includes_str (''UDS-Response-Fehler: Service '' @ toString16 n) ''TIMEOUT''"
    by (auto dest!: includes_str_set)
qed

lemma sendData_ok:
  "isConnected s \<Longrightarrow> wrapper s = Some t \<Longrightarrow> wrapper_write W bytes t = (Inr n, t1) \<Longrightarrow>
     sendData W bytes s = (Inr (), s\<lparr>wrapper := Some t1, io_log := io_log s @ [IoWrite bytes]\<rparr>)"
  by (simp add: sendData_def js_defs call_write_def)

lemma receiveData_ok:
  "isConnected s \<Longrightarrow> wrapper s = Some t \<Longrightarrow> wrapper_read W timeout t = (Inr response, t1) \<Longrightarrow>
     receiveData W timeout s = (Inr response, s\<lparr>wrapper := Some t1, io_log := io_log s @ [IoRead timeout]\<rparr>)"
  by (simp add: receiveData_def js_defs call_read_def)

text \<open>
  C3, as the code has it. When the backend tool is connected, the write succeeds and the frame
  that is read decodes, \<open>sendUdsRequest\<close> returns the raw frame exactly when the response code
  is 0x62, dataLength is not 0 and at least one data byte follows; in every other case, whatever
  the response code, it throws the one error \<open>UDS-Request-Fehler: UDS-Response-Fehler: Service\<close>
  followed by the service id in hexadecimal.
\<close>

theorem sendUdsRequest_outcome:
  assumes "isConnected s" and "wrapper s = Some t"
    and "wrapper_write W (createUdsFrame sid dataIdentifier extra) t = (Inr n, t1)"
    and "wrapper_read W timeout t1 = (Inr response, t2)"
    and "parseUdsResponse response = Inr parsed"
  shows "fst (sendUdsRequest W sid dataIdentifier extra timeout s) =
           (if responseCode parsed = 0x62 \<and> dataLength parsed > 0 \<and> js_length (data parsed) > 0
            then Inr response
            else Inl (''UDS-Request-Fehler: UDS-Response-Fehler: Service ''
                      @ toString16 (unat (serviceId parsed))))"
proof -
  let ?s1 = "s\<lparr>wrapper := Some t1, io_log := io_log s @ [IoWrite (createUdsFrame sid dataIdentifier extra)]\<rparr>"
  have sd: "sendData W (createUdsFrame sid dataIdentifier extra) s = (Inr (), ?s1)"
    using assms(1-3) by (rule sendData_ok)
  have "isConnected ?s1" "wrapper ?s1 = Some t1" using assms(1) by simp_all
  from receiveData_ok [OF this assms(4)]
  obtain s2 where rd: "receiveData W timeout ?s1 = (Inr response, s2)" by blast
  have pos: "isPositiveResponse parsed = (responseCode parsed = 0x62)"
    using assms(5) by (auto simp: parseUdsResponse_def split: if_splits)
  show ?thesis
    using assms(1) sd rd assms(5) pos response_error_no_timeout [of "unat (serviceId parsed)"]
    by (simp add: sendUdsRequest_def js_defs isResponseSuccessful_def)
qed

lemma outcome_examples:
  "parseUdsResponse (JsBuffer [0x01, 0x00, 0x3D, 0x03, 0x22, 0x62, 0x02, 0x42, 0x37])
     = Inr \<lparr> serviceId = 0x22, dataLength = 0x03, responseCode = 0x62, data = JsBuffer [0x02, 0x42, 0x37],
             isPositiveResponse = True, isNegativeResponse = False \<rparr>"
  "parseUdsResponse (JsBuffer [0x01, 0x00, 0x3D, 0x03, 0x22, 0x7F, 0x22, 0x31])
     = Inr \<lparr> serviceId = 0x22, dataLength = 0x03, responseCode = 0x7F, data = JsBuffer [0x22, 0x31],
             isPositiveResponse = False, isNegativeResponse = True \<rparr>"
  "toString16 34 = ''22''"
  by (simp_all add: parseUdsResponse_def js_length_def js_at_def js_slice_from_def
        toString16.simps digit_char_def)

theorem sendUdsRequest_outcome_witness:
  "fst (sendUdsRequest (queue_wrapper []) 0x22 [0x02, 0x42] [] 3000
          (connected_tool [JsBuffer [0x01, 0x00, 0x3D, 0x03, 0x22, 0x62, 0x02, 0x42, 0x37]]))
     = Inr (JsBuffer [0x01, 0x00, 0x3D, 0x03, 0x22, 0x62, 0x02, 0x42, 0x37])
   \<and> fst (sendUdsRequest (queue_wrapper []) 0x22 [0x02, 0x42] [] 3000
          (connected_tool [JsBuffer [0x01, 0x00, 0x3D, 0x03, 0x22, 0x7F, 0x22, 0x31]]))
     = Inl ''UDS-Request-Fehler: UDS-Response-Fehler: Service 22''"
proof -
  let ?W = "queue_wrapper [] :: jsbytes list wrapper_ops"
  let ?ok = "JsBuffer [0x01, 0x00, 0x3D, 0x03, 0x22, 0x62, 0x02, 0x42, 0x37]"
  let ?neg = "JsBuffer [0x01, 0x00, 0x3D, 0x03, 0x22, 0x7F, 0x22, 0x31]"
  have c: "isConnected (connected_tool [f])" "wrapper (connected_tool [f]) = Some [f]" for f :: jsbytes
    by (simp_all add: connected_tool_def)
  have w: "wrapper_write ?W (createUdsFrame 0x22 [0x02, 0x42] []) [f] = (Inr 65, [f])" for f
    by (simp add: queue_wrapper_def)
  have r: "wrapper_read ?W 3000 [f] = (Inr f, [])" for f
    by (simp add: queue_wrapper_def)
  from sendUdsRequest_outcome [OF c w r outcome_examples(1)]
       sendUdsRequest_outcome [OF c w r outcome_examples(2)]
  show ?thesis by (simp add: js_length_def outcome_examples(3))
qed

text \<open>
  C3 as stated fails: a frame that decodes, with response code 0x6E and dataLength 3, is
  neither a negative response nor an empty read response, yet the transaction fails.
\<close>

theorem sendUdsRequest_write_ack_rejected:
  "responseCode (projr (parseUdsResponse (JsBuffer [0x01, 0x00, 0x3D, 0x03, 0x2E, 0x6E, 0x02, 0x3A]))) = 0x6E
   \<and> dataLength (projr (parseUdsResponse (JsBuffer [0x01, 0x00, 0x3D, 0x03, 0x2E, 0x6E, 0x02, 0x3A]))) = 0x03
   \<and> fst (sendUdsRequest (queue_wrapper []) 0x2E [0x02, 0x3A] [] 3000
            (connected_tool [JsBuffer [0x01, 0x00, 0x3D, 0x03, 0x2E, 0x6E, 0x02, 0x3A]]))
       = Inl ''UDS-Request-Fehler: UDS-Response-Fehler: Service 2e''"
  by code_simp

section \<open>Writing date and time\<close>

lemma parseUdsResponse_local_header:
  "parseUdsResponse_local response = Inr q \<Longrightarrow> js_at response 0 = Some 0x01"
  by (auto simp: parseUdsResponse_local_def split: if_splits)

lemma sendUdsRequest_local_header:
  assumes "sendUdsRequest_local W sid did extra timeout s = (Inr response, s')"
  shows "js_at response 0 = Some 0x01"
proof -
  from assms obtain q where "parseUdsResponse_local response = Inr q"
    by (auto simp: sendUdsRequest_local_def js_defs split: if_splits prod.splits sum.splits)
  then show ?thesis by (rule parseUdsResponse_local_header)
qed

text \<open>
  C5 fails on the code. \<open>setDateTime\<close> compares byte 0 of the raw frame with 0x6E, and a
  frame that \<open>sendUdsRequest\<close> returns always has 0x01 there. So whatever the device
  answers, also a frame whose service byte is the acknowledgement 0x6E, \<open>setDateTime\<close>
  throws and never returns true.
\<close>

theorem setDateTime_local_never_succeeds:
  "\<exists>e s'. setDateTime_local W date s = (Inl e, s')"
proof -
  let ?req = "sendUdsRequest_local W WRITE_DATA_BY_IDENTIFIER PRESENT_DATE_TIME
                [of_int (getFullYear date - 2000), of_int (getMonth date + 1), of_int (getDate date),
                 of_int (getHours date), of_int (getMinutes date)] 3000"
  obtain r s1 where req: "?req s = (r, s1)" by (cases "?req s")
  show ?thesis
  proof (cases r)
    case (Inl e)
    with req show ?thesis by (simp add: setDateTime_local_def js_defs Let_def)
  next
    case (Inr response)
    with req have "js_at response 0 = Some 0x01" by (auto dest: sendUdsRequest_local_header)
    with req Inr show ?thesis by (simp add: setDateTime_local_def js_defs Let_def)
  qed
qed

text \<open>
  The failing run: the device answers the write with a frame whose service byte is 0x6E; the
  transaction succeeds and returns the frame, and \<open>setDateTime\<close> throws.
\<close>

lemma write_ack_example:
  "serviceId_local (projr (parseUdsResponse_local (JsBuffer [0x01, 0x00, 0x03, 0x6E, 0x02, 0x3A]))) = 0x6E"
  "fst (sendUdsRequest_local (queue_wrapper []) 0x2E [0x02, 0x3A] [24, 6, 15, 14, 30] 3000
          (connected_tool [JsBuffer [0x01, 0x00, 0x03, 0x6E, 0x02, 0x3A]]))
     = Inr (JsBuffer [0x01, 0x00, 0x03, 0x6E, 0x02, 0x3A])"
  "fst (setDateTime_local (queue_wrapper [])
          \<lparr>getFullYear = 2024, getMonth = 5, getDate = 15, getHours = 14, getMinutes = 30\<rparr>
          (connected_tool [JsBuffer [0x01, 0x00, 0x03, 0x6E, 0x02, 0x3A]]))
     = Inl ''Datum/Zeit-Setze-Fehler: Datum/Zeit konnte nicht gesetzt werden''"
  by code_simp+

theorem setDateTime_local_never_succeeds_witness:
  "serviceId_local (projr (parseUdsResponse_local (JsBuffer [0x01, 0x00, 0x03, 0x6E, 0x02, 0x3A]))) = 0x6E
   \<and> fst (sendUdsRequest_local (queue_wrapper []) 0x2E [0x02, 0x3A] [24, 6, 15, 14, 30] 3000
            (connected_tool [JsBuffer [0x01, 0x00, 0x03, 0x6E, 0x02, 0x3A]]))
       = Inr (JsBuffer [0x01, 0x00, 0x03, 0x6E, 0x02, 0x3A])
   \<and> (\<exists>s'. setDateTime_local (queue_wrapper [])
            \<lparr>getFullYear = 2024, getMonth = 5, getDate = 15, getHours = 14, getMinutes = 30\<rparr>
            (connected_tool [JsBuffer [0x01, 0x00, 0x03, 0x6E, 0x02, 0x3A]])
       = (Inl ''Datum/Zeit-Setze-Fehler: Datum/Zeit konnte nicht gesetzt werden'', s'))"
proof -
  from setDateTime_local_never_succeeds
         [of "queue_wrapper []"
             "\<lparr>getFullYear = 2024, getMonth = 5, getDate = 15, getHours = 14, getMinutes = 30\<rparr>"
             "connected_tool [JsBuffer [0x01, 0x00, 0x03, 0x6E, 0x02, 0x3A]]"]
  obtain e s' where run:
    "setDateTime_local (queue_wrapper [])
       \<lparr>getFullYear = 2024, getMonth = 5, getDate = 15, getHours = 14, getMinutes = 30\<rparr>
       (connected_tool [JsBuffer [0x01, 0x00, 0x03, 0x6E, 0x02, 0x3A]]) = (Inl e, s')"
    by blast
  with write_ack_example(3) have "e = ''Datum/Zeit-Setze-Fehler: Datum/Zeit konnte nicht gesetzt werden''"
    by simp
  with run write_ack_example(1,2) show ?thesis by blast
qed

section \<open>Reading all information\<close>

lemma task_step:
  "\<exists>v s'. try_catch (bind_js fn (\<lambda>v. return_js (AList.update key (JStr v) results)))
                    (\<lambda>error. return_js (AList.update key (JStr (''Fehler: '' @ error)) results)) s
           = (Inr (AList.update key (JStr v) results), s') \<and> slot_filled fn v"
proof (cases "fn s")
  case (Pair r s')
  show ?thesis
  proof (cases r)
    case (Inl e)
    with Pair show ?thesis by (auto simp: js_defs slot_filled_def)
  next
    case (Inr v)
    with Pair show ?thesis by (auto simp: js_defs slot_filled_def)
  qed
qed

text \<open>
  The loop never throws; it fills the slot of every task and leaves the other keys alone.
\<close>

lemma run_tasks_slots:
  "distinct (map fst ts) \<Longrightarrow>
   \<exists>results' s'. run_tasks ts results s = (Inr results', s')
      \<and> (\<forall>(key, reader) \<in> set ts. \<exists>v. map_of results' key = Some (JStr v) \<and> slot_filled reader v)
      \<and> (\<forall>k. k \<notin> fst ` set ts \<longrightarrow> map_of results' k = map_of results k)"
proof (induction ts arbitrary: results s)
  case Nil
  then show ?case by simp
next
  case (Cons t ts)
  obtain key fn where t: "t = (key, fn)" by (cases t)
  from task_step [of fn key results s] obtain v s1 where
    step: "try_catch (bind_js fn (\<lambda>v. return_js (AList.update key (JStr v) results)))
                    (\<lambda>error. return_js (AList.update key (JStr (''Fehler: '' @ error)) results)) s
           = (Inr (AList.update key (JStr v) results), s1)" and filled: "slot_filled fn v"
    by blast
  from Cons.prems t have d: "distinct (map fst ts)" and fresh: "key \<notin> fst ` set ts" by auto
  from Cons.IH [OF d, of "AList.update key (JStr v) results" s1] obtain results' s' where
    run: "run_tasks ts (AList.update key (JStr v) results) s1 = (Inr results', s')"
    and slots: "\<forall>(key, reader) \<in> set ts. \<exists>v. map_of results' key = Some (JStr v) \<and> slot_filled reader v"
    and rest: "\<forall>k. k \<notin> fst ` set ts \<longrightarrow> map_of results' k = map_of (AList.update key (JStr v) results) k"
    by blast
  have whole: "run_tasks (t # ts) results s = (Inr results', s')"
    using step run by (simp add: t)
  have here: "map_of results' key = Some (JStr v)"
    using rest fresh by (simp add: update_conv')
  have other: "\<forall>k. k \<notin> fst ` set (t # ts) \<longrightarrow> map_of results' k = map_of results k"
    using rest by (simp add: t update_conv')
  show ?case
    using whole here filled slots other by (auto simp: t)
qed

lemma try_update:
  "\<exists>y s'. try_catch (bind_js m (\<lambda>v. return_js (AList.update k (F v) r)))
                   (\<lambda>e. return_js (AList.update k (G e) r)) s = (Inr (AList.update k y r), s')"
proof (cases "m s")
  case (Pair x s')
  then show ?thesis by (cases x) (auto simp: js_defs)
qed

lemma keys_tasks_local: "map fst (tasks_local W) = primary_keys"
  by (simp add: tasks_local_def primary_keys_def)

lemma keys_tasks: "map fst (tasks W) = primary_keys"
  by (simp add: tasks_def primary_keys_def)

lemma extras_fresh:
  "''driveUnit'' \<notin> set primary_keys" "''batteryManagement'' \<notin> set primary_keys"
  "''lastUpdate'' \<notin> set primary_keys"
  by (simp_all add: primary_keys_def)

text \<open>
  C4. Whatever the wrapper does and whatever the state and the mode are, \<open>readAllInformation\<close>
  of the local tool returns a record and does not throw. The record has a string under each
  of the eight primary keys, which is the value its reader returned or \<open>Fehler:\<close> with the
  message its reader threw, and \<open>lastUpdate\<close> holds the time stamp.
\<close>

theorem readAllInformation_local_total:
  "\<exists>results s'. readAllInformation_local W mode now s = (Inr results, s')
      \<and> map fst (tasks_local W) = primary_keys
      \<and> (\<forall>(key, reader) \<in> set (tasks_local W).
            \<exists>v. map_of results key = Some (JStr v) \<and> slot_filled reader v)
      \<and> map_of results ''lastUpdate'' = Some (JObj [(''date'', now)])"
proof -
  have "distinct (map fst (tasks_local W))"
    by (simp add: keys_tasks_local primary_keys_def)
  from run_tasks_slots [OF this, of "[]" s] obtain results1 s1 where
    run: "run_tasks (tasks_local W) [] s = (Inr results1, s1)"
    and slots: "\<forall>(key, reader) \<in> set (tasks_local W).
                  \<exists>v. map_of results1 key = Some (JStr v) \<and> slot_filled reader v"
    by blast
  let ?last = "\<lambda>results. AList.update ''lastUpdate'' (JObj [(''date'', now)]) results"
  have "\<exists>y1 y2 s3. readAllInformation_local W mode now s =
          (Inr (?last (AList.update ''batteryManagement'' y2 (AList.update ''driveUnit'' y1 results1))), s3)"
  proof (cases "mode = ''full''")
    case True
    from try_update [of "readDriveUnitInfo_local W" "''driveUnit''" JObj results1
                        "\<lambda>error. read_failed error ''Drive Unit''" s1]
    obtain y1 s2 where du:
      "try_catch (bind_js (readDriveUnitInfo_local W) (\<lambda>du.
                    return_js (AList.update ''driveUnit'' (JObj du) results1)))
                 (\<lambda>error. return_js (AList.update ''driveUnit'' (read_failed error ''Drive Unit'') results1)) s1
       = (Inr (AList.update ''driveUnit'' y1 results1), s2)" by blast
    from try_update [of "readBatteryManagementInfo_local W" "''batteryManagement''" JObj
                        "AList.update ''driveUnit'' y1 results1"
                        "\<lambda>error. read_failed error ''Battery Management System''" s2]
    obtain y2 s3 where bms:
      "try_catch (bind_js (readBatteryManagementInfo_local W) (\<lambda>bms.
                    return_js (AList.update ''batteryManagement'' (JObj bms) (AList.update ''driveUnit'' y1 results1))))
                 (\<lambda>error. return_js (AList.update ''batteryManagement''
                             (read_failed error ''Battery Management System'') (AList.update ''driveUnit'' y1 results1))) s2
       = (Inr (AList.update ''batteryManagement'' y2 (AList.update ''driveUnit'' y1 results1)), s3)" by blast
    have "readAllInformation_local W mode now s =
            (Inr (?last (AList.update ''batteryManagement'' y2 (AList.update ''driveUnit'' y1 results1))), s3)"
      unfolding readAllInformation_local_def
      using run du bms True by (simp add: js_defs)
    then show ?thesis by blast
  next
    case False
    have "readAllInformation_local W mode now s =
            (Inr (?last (AList.update ''batteryManagement'' (not_queried ''Battery Management'')
                    (AList.update ''driveUnit'' (not_queried ''Drive Unit'') results1))), s1)"
      unfolding readAllInformation_local_def
      using run False by (simp add: js_defs)
    then show ?thesis by blast
  qed
  then obtain y1 y2 s3 where whole: "readAllInformation_local W mode now s =
          (Inr (?last (AList.update ''batteryManagement'' y2 (AList.update ''driveUnit'' y1 results1))), s3)"
    by blast
  let ?results = "?last (AList.update ''batteryManagement'' y2 (AList.update ''driveUnit'' y1 results1))"
  have keep: "map_of ?results key = map_of results1 key" if "key \<in> set primary_keys" for key
    using that extras_fresh by (auto simp: update_conv')
  have "\<forall>(key, reader) \<in> set (tasks_local W). \<exists>v. map_of ?results key = Some (JStr v) \<and> slot_filled reader v"
  proof (clarify)
    fix key reader assume mem: "(key, reader) \<in> set (tasks_local W)"
    then have "key \<in> set (map fst (tasks_local W))" by force
    then have "key \<in> set primary_keys" by (simp only: keys_tasks_local)
    from keep [OF this] slots mem show "\<exists>v. map_of ?results key = Some (JStr v) \<and> slot_filled reader v"
      by fastforce
  qed
  moreover have "map_of ?results ''lastUpdate'' = Some (JObj [(''date'', now)])"
    by (simp add: update_conv')
  ultimately show ?thesis using whole keys_tasks_local by blast
qed

text \<open>A run in which every read times out: all eight slots hold the timeout marker.\<close>

lemma all_timeouts_example:
  "fst (readAllInformation_local (queue_wrapper []) ''display'' ''2026-01-01T00:00:00.000Z'' (connected_tool []))
     = Inr [(''serialNumber'', JStr ''Fehler: Seriennummer-Lesefehler: TIMEOUT''),
            (''hardwareVersion'', JStr ''Fehler: Hardware-Version-Lesefehler: TIMEOUT''),
            (''softwareVersion'', JStr ''Fehler: Software-Version-Lesefehler: TIMEOUT''),
            (''productCode'', JStr ''Fehler: Produktcode-Lesefehler: TIMEOUT''),
            (''articleNumber'', JStr ''Fehler: Artikelnummer-Lesefehler: TIMEOUT''),
            (''componentType'', JStr ''Fehler: Komponententyp-Lesefehler: TIMEOUT''),
            (''currentTime'', JStr ''Fehler: Uhrzeit-Lesefehler: TIMEOUT''),
            (''currentDate'', JStr ''Fehler: Datum-Lesefehler: TIMEOUT''),
            (''driveUnit'', not_queried ''Drive Unit''),
            (''batteryManagement'', not_queried ''Battery Management''),
            (''lastUpdate'', JObj [(''date'', ''2026-01-01T00:00:00.000Z'')])]"
  by code_simp

theorem readAllInformation_local_total_witness:
  "\<exists>results s'.
     readAllInformation_local (queue_wrapper []) ''display'' ''2026-01-01T00:00:00.000Z'' (connected_tool [])
       = (Inr results, s')
     \<and> map_of results ''serialNumber'' = Some (JStr ''Fehler: Seriennummer-Lesefehler: TIMEOUT'')
     \<and> map_of results ''hardwareVersion'' = Some (JStr ''Fehler: Hardware-Version-Lesefehler: TIMEOUT'')
     \<and> map_of results ''softwareVersion'' = Some (JStr ''Fehler: Software-Version-Lesefehler: TIMEOUT'')
     \<and> map_of results ''productCode'' = Some (JStr ''Fehler: Produktcode-Lesefehler: TIMEOUT'')
     \<and> map_of results ''articleNumber'' = Some (JStr ''Fehler: Artikelnummer-Lesefehler: TIMEOUT'')
     \<and> map_of results ''componentType'' = Some (JStr ''Fehler: Komponententyp-Lesefehler: TIMEOUT'')
     \<and> map_of results ''currentTime'' = Some (JStr ''Fehler: Uhrzeit-Lesefehler: TIMEOUT'')
     \<and> map_of results ''currentDate'' = Some (JStr ''Fehler: Datum-Lesefehler: TIMEOUT'')
     \<and> map_of results ''lastUpdate'' = Some (JObj [(''date'', ''2026-01-01T00:00:00.000Z'')])"
proof -
  from readAllInformation_local_total
         [of "queue_wrapper []" "''display''" "''2026-01-01T00:00:00.000Z''" "connected_tool []"]
  obtain results s' where run:
    "readAllInformation_local (queue_wrapper []) ''display'' ''2026-01-01T00:00:00.000Z'' (connected_tool [])
       = (Inr results, s')"
    by blast
  with all_timeouts_example have "results =
     [(''serialNumber'', JStr ''Fehler: Seriennummer-Lesefehler: TIMEOUT''),
      (''hardwareVersion'', JStr ''Fehler: Hardware-Version-Lesefehler: TIMEOUT''),
      (''softwareVersion'', JStr ''Fehler: Software-Version-Lesefehler: TIMEOUT''),
      (''productCode'', JStr ''Fehler: Produktcode-Lesefehler: TIMEOUT''),
      (''articleNumber'', JStr ''Fehler: Artikelnummer-Lesefehler: TIMEOUT''),
      (''componentType'', JStr ''Fehler: Komponententyp-Lesefehler: TIMEOUT''),
      (''currentTime'', JStr ''Fehler: Uhrzeit-Lesefehler: TIMEOUT''),
      (''currentDate'', JStr ''Fehler: Datum-Lesefehler: TIMEOUT''),
      (''driveUnit'', not_queried ''Drive Unit''),
      (''batteryManagement'', not_queried ''Battery Management''),
      (''lastUpdate'', JObj [(''date'', ''2026-01-01T00:00:00.000Z'')])]"
    by simp
  with run show ?thesis by simp
qed

text \<open>The backend tool reads the same eight slots and has no optional part.\<close>

lemma readAllInformation_total:
  "\<exists>results s'. readAllInformation W mode now s = (Inr results, s')
      \<and> (\<forall>(key, reader) \<in> set (tasks W).
            \<exists>v. map_of results key = Some (JStr v) \<and> slot_filled reader v)
      \<and> map_of results ''lastUpdate'' = Some (JObj [(''date'', now)])"
proof -
  have "distinct (map fst (tasks W))"
    by (simp add: keys_tasks primary_keys_def)
  from run_tasks_slots [OF this, of "[]" s] obtain results1 s1 where
    run: "run_tasks (tasks W) [] s = (Inr results1, s1)"
    and slots: "\<forall>(key, reader) \<in> set (tasks W).
                  \<exists>v. map_of results1 key = Some (JStr v) \<and> slot_filled reader v"
    by blast
  let ?results = "AList.update ''lastUpdate'' (JObj [(''date'', now)]) results1"
  have whole: "readAllInformation W mode now s = (Inr ?results, s1)"
    unfolding readAllInformation_def using run by (simp add: js_defs)
  have keep: "map_of ?results key = map_of results1 key" if "key \<in> set primary_keys" for key
    using that extras_fresh by (auto simp: update_conv')
  have "\<forall>(key, reader) \<in> set (tasks W). \<exists>v. map_of ?results key = Some (JStr v) \<and> slot_filled reader v"
  proof (clarify)
    fix key reader assume mem: "(key, reader) \<in> set (tasks W)"
    then have "key \<in> set (map fst (tasks W))" by force
    then have "key \<in> set primary_keys" by (simp only: keys_tasks)
    from keep [OF this] slots mem show "\<exists>v. map_of ?results key = Some (JStr v) \<and> slot_filled reader v"
      by fastforce
  qed
  moreover have "map_of ?results ''lastUpdate'' = Some (JObj [(''date'', now)])"
    by (simp add: update_conv')
  ultimately show ?thesis using whole by blast
qed

end
